theory Spec2Isabelle
  imports Main
begin

section \<open>Data model\<close>

text \<open>
  The repository is a versioned paste store served over HTTP. Two revisions of the
  handler file are present: \<^verbatim>\<open>gobin/routes.go\<close>, and a later revision of the same
  file carried behind \<^verbatim>\<open>cmd/version.go\<close>. Definitions of the first keep the source's
  names; definitions of the later revision carry the suffix \<open>_v2\<close>.
\<close>

subsection \<open>Permissions and token claims\<close>

text \<open>
  Modelled from the spec: \<^verbatim>\<open>jwt.go\<close> (type \<open>Permission\<close>, its method \<open>IsValid\<close>,
  \<open>Claims\<close>, \<open>GetClaims\<close>, \<open>NewToken\<close>) is not among the sources. The spec gives the
  permissions as the closed enumeration write, delete, share; the handlers decode a
  permission from a JSON string, so a permission is a string and \<open>IsValid\<close> tests
  membership in the enumeration.
\<close>

type_synonym Permission = string

definition PermissionWrite :: Permission where
  "PermissionWrite = ''write''"

definition PermissionDelete :: Permission where
  "PermissionDelete = ''delete''"

definition PermissionShare :: Permission where
  "PermissionShare = ''share''"

definition AllPermissions :: "Permission list" where
  "AllPermissions = [PermissionWrite, PermissionDelete, PermissionShare]"

text \<open>
  Modelled from the spec: \<open>IsValid\<close>, for the absent method of \<open>Permission\<close>: the
  permission is one of the enumeration.
\<close>

definition IsValid :: "Permission \<Rightarrow> bool" where
  "IsValid p = (p \<in> set AllPermissions)"

record Claims =
  Subject :: string
  Permissions :: "Permission list"

text \<open>\<^verbatim>\<open>slices.Contains\<close> of the Go library.\<close>

definition slices_Contains :: "'a list \<Rightarrow> 'a \<Rightarrow> bool" where
  "slices_Contains xs x = (x \<in> set xs)"

subsection \<open>Errors and responses\<close>

text \<open>
  The error values of \<^verbatim>\<open>routes.go\<close>, those of the absent \<^verbatim>\<open>jwt.go\<close> that the share
  handler reports, and the failures of the collaborators (JSON decoding, reading the
  body, signing, the database driver).
\<close>

datatype error =
    ErrDocumentNotFound
  | ErrUnauthorized
  | ErrRateLimit
  | ErrEmptyBody
  | ErrContentTooLarge int
  | ErrNoPermissions
  | ErrUnknownPermission Permission
  | ErrPermissionDenied Permission
  | ErrNoRows
  | ErrJSONDecode
  | ErrReadBody
  | ErrSigner
  | ErrDriver

definition StatusOK :: int where "StatusOK = 200"
definition StatusNoContent :: int where "StatusNoContent = 204"
definition StatusBadRequest :: int where "StatusBadRequest = 400"
definition StatusForbidden :: int where "StatusForbidden = 403"
definition StatusNotFound :: int where "StatusNotFound = 404"
definition StatusTooManyRequests :: int where "StatusTooManyRequests = 429"
definition StatusInternalServerError :: int where "StatusInternalServerError = 500"

record DocumentResponse =
  Key :: string
  Version_rs :: int
  VersionLabel :: string
  VersionTime :: string
  Data :: string
  Formatted :: string
  CSS :: string
  Language_rs :: string
  Token :: string

datatype payload =
    DocumentPayload DocumentResponse
  | DocumentListPayload "DocumentResponse list"
  | ShareResponse string
  | DeleteResponse nat

text \<open>
  What a handler leaves on the response writer: \<open>Failure e st\<close> is \<^verbatim>\<open>s.error(w, r, e, st)\<close>,
  \<open>JSON st v\<close> is \<^verbatim>\<open>s.json(w, r, v, st)\<close>, \<open>HeaderOnly st\<close> is a bare
  \<^verbatim>\<open>w.WriteHeader(st)\<close>, and \<open>Nothing\<close> is a handler that returned without writing.
\<close>

datatype response =
    Failure error int
  | JSON int payload
  | HeaderOnly int
  | Nothing

text \<open>
  A helper that may answer the request itself returns, beside its result, the response
  it wrote (\<open>None\<close> when it wrote none). A handler that returns after such a helper
  leaves that response, or \<open>Nothing\<close>.
\<close>

definition written :: "response option \<Rightarrow> response" where
  "written w = (case w of None \<Rightarrow> Nothing | Some rs \<Rightarrow> rs)"

definition documentNotFound :: response where
  "documentNotFound = Failure ErrDocumentNotFound StatusNotFound"

definition rateLimit :: response where
  "rateLimit = Failure ErrRateLimit StatusTooManyRequests"

definition ok :: "payload \<Rightarrow> response" where
  "ok v = JSON StatusOK v"

subsection \<open>Requests\<close>

text \<open>
  A request as the handlers read it: the method, the parameters the router bound from
  the path, the headers and query values read, the body (\<open>None\<close> when reading it
  fails), whether the request's context is already done (cancelled or timed out), and
  the claims the JWT middleware attached to the request's context.
\<close>

record Request =
  Method :: string
  URLParams :: "(string \<times> string) list"
  Header_Language :: string
  Query_render :: string
  Body :: "string option"
  ContextDone :: bool
  ContextClaims :: Claims

text \<open>\<^verbatim>\<open>chi.URLParam\<close>: the bound value, or the empty string when the key is not bound.\<close>

definition URLParam :: "Request \<Rightarrow> string \<Rightarrow> string" where
  "URLParam r key = (case map_of (URLParams r) key of None \<Rightarrow> [] | Some v \<Rightarrow> v)"

text \<open>
  Modelled from the spec: \<open>GetClaims\<close> (in the absent \<^verbatim>\<open>jwt.go\<close>) returns the claims
  verified for the request; a request without a token carries empty claims.
\<close>

definition GetClaims :: "Request \<Rightarrow> Claims" where
  "GetClaims r = ContextClaims r"

definition MethodGet :: string where "MethodGet = ''GET''"
definition MethodHead :: string where "MethodHead = ''HEAD''"
definition MethodPost :: string where "MethodPost = ''POST''"
definition MethodPatch :: string where "MethodPatch = ''PATCH''"
definition MethodDelete :: string where "MethodDelete = ''DELETE''"

section \<open>Library functions the handlers call\<close>

subsection \<open>Decimal output\<close>

text \<open>
  The \<^verbatim>\<open>%d\<close> verb of \<^verbatim>\<open>fmt.Sprintf\<close> and the zero-padded fields of
  \<^verbatim>\<open>Time.Format\<close>.
\<close>

definition digit_char :: "int \<Rightarrow> char" where
  "digit_char n = char_of (48 + n)"

function dec_digits :: "int \<Rightarrow> string" where
  "dec_digits n =
     (if n < 10 then [digit_char n] else dec_digits (n div 10) @ [digit_char (n mod 10)])"
  by pat_completeness auto
termination
  by (relation "measure nat") auto

declare dec_digits.simps [simp del]

definition Sprintf_d :: "int \<Rightarrow> string" where
  "Sprintf_d i = (if i < 0 then CHR ''-'' # dec_digits (- i) else dec_digits i)"

definition appendInt :: "int \<Rightarrow> nat \<Rightarrow> string" where
  "appendInt x width =
     (let s = dec_digits \<bar>x\<bar>;
          padded = replicate (width - length s) (CHR ''0'') @ s
      in if x < 0 then CHR ''-'' # padded else padded)"

subsection \<open>Calendar time\<close>

text \<open>
  A \<^verbatim>\<open>time.Time\<close> as \<^verbatim>\<open>FormatDocumentVersion\<close> reads it: through its calendar
  components. \<open>Month\<close> is 1 to 12.
\<close>

record Time =
  Year :: int
  Month :: int
  Day :: int
  Hour :: int
  Minute :: int
  Second :: int

text \<open>
  The date of the proleptic Gregorian calendar that lies \<open>z\<close> days after 1 January 1970,
  as (year, month, day).
\<close>

definition civil_from_days :: "int \<Rightarrow> int \<times> int \<times> int" where
  "civil_from_days z =
     (let z' = z + 719468;
          era = z' div 146097;
          doe = z' mod 146097;
          yoe = (doe - doe div 1460 + doe div 36524 - doe div 146096) div 365;
          doy = doe - (365 * yoe + yoe div 4 - yoe div 100);
          mp = (5 * doy + 2) div 153;
          d = doy - (153 * mp + 2) div 5 + 1;
          m = (if mp < 10 then mp + 3 else mp - 9);
          y = yoe + era * 400 + (if m \<le> 2 then 1 else 0)
      in (y, m, d))"

text \<open>
  \<^verbatim>\<open>time.Unix(sec, 0)\<close>: the local time of the instant \<open>sec\<close> seconds after the epoch.
  \<open>zone\<close> is the local time zone: the offset from UTC, in seconds, in force at an
  instant.
\<close>

definition time_Unix :: "(int \<Rightarrow> int) \<Rightarrow> int \<Rightarrow> Time" where
  "time_Unix zone sec =
     (let t = sec + zone sec;
          (y, m, d) = civil_from_days (t div 86400);
          s = t mod 86400
      in \<lparr>Year = y, Month = m, Day = d,
          Hour = s div 3600, Minute = s mod 3600 div 60, Second = s mod 60\<rparr>)"

definition UTC :: "int \<Rightarrow> int" where
  "UTC sec = 0"

text \<open>\<^verbatim>\<open>Time.Format("02/01/2006 15:04:05")\<close>.\<close>

definition Format_version :: "Time \<Rightarrow> string" where
  "Format_version t =
     appendInt (Day t) 2 @ ''/'' @ appendInt (Month t) 2 @ ''/'' @ appendInt (Year t) 4
     @ '' '' @ appendInt (Hour t) 2 @ '':'' @ appendInt (Minute t) 2 @ '':''
     @ appendInt (Second t) 2"

subsection \<open>Parsing a decimal integer\<close>

definition is_digit :: "char \<Rightarrow> bool" where
  "is_digit c = (c \<in> set ''0123456789'')"

definition digits_value :: "string \<Rightarrow> int" where
  "digits_value ds = foldl (\<lambda>acc c. acc * 10 + (of_char c - 48)) 0 ds"

text \<open>
  \<^verbatim>\<open>strconv.ParseInt(s, 10, 64)\<close>, with \<open>None\<close> for a returned error: a syntax error
  (empty, no digit after the sign, a character that is no decimal digit) or a range error
  (outside \<open>-2^63 .. 2^63 - 1\<close>).
\<close>

definition ParseInt :: "string \<Rightarrow> int option" where
  "ParseInt s =
     (case s of
        [] \<Rightarrow> None
      | c # cs \<Rightarrow>
          (let neg = (c = CHR ''-'');
               ds = (if c = CHR ''+'' \<or> c = CHR ''-'' then cs else s)
           in if ds = [] \<or> \<not> list_all is_digit ds then None
              else
                (let un = digits_value ds in
                 if \<not> neg \<and> un \<ge> 2 ^ 63 then None
                 else if neg \<and> un > 2 ^ 63 then None
                 else Some (if neg then - un else un))))"

section \<open>The version label\<close>

text \<open>\<^verbatim>\<open>FormatDocumentVersion\<close>, identical in both revisions.\<close>

definition FormatDocumentVersion :: "(int \<Rightarrow> int) \<Rightarrow> Time \<Rightarrow> int \<Rightarrow> string \<times> string" where
  "FormatDocumentVersion zone now versionRaw =
     (let version = time_Unix zone versionRaw;
          timeStr = Format_version version
      in if Year version < Year now
         then (Sprintf_d (Year now - Year version) @ '' years ago'', timeStr)
         else if Month version < Month now
         then (Sprintf_d (Month now - Month version) @ '' months ago'', timeStr)
         else if Day version < Day now
         then (Sprintf_d (Day now - Day version) @ '' days ago'', timeStr)
         else if Hour version < Hour now
         then (Sprintf_d (Hour now - Hour version) @ '' hours ago'', timeStr)
         else if Minute version < Minute now
         then (Sprintf_d (Minute now - Minute version) @ '' minutes ago'', timeStr)
         else (Sprintf_d (Second now - Second version) @ '' seconds ago'', timeStr))"

section \<open>The document store\<close>

record Document =
  ID :: string
  Version :: int
  Content :: string
  Language :: string

text \<open>
  Modelled from the spec: the database layer (\<^verbatim>\<open>db.go\<close>: \<open>CreateDocument\<close>,
  \<open>GetDocument\<close>, \<open>GetDocumentVersion\<close>, \<open>GetDocumentVersions\<close>, \<open>UpdateDocument\<close>,
  \<open>DeleteDocument\<close>, \<open>DeleteDocumentByVersion\<close>, \<open>GetVersionCount\<close>) is not among the
  sources; only the table's schema and the handlers that call it are. The table is the
  list of its rows in insertion order, with columns id, version, content, language and
  primary key (id, version). Each operation follows its contract in the spec; the
  names are the ones the handlers call, prefixed with \<open>DB_\<close>. \<open>ErrNoRows\<close> is the
  spec's NotFound (\<^verbatim>\<open>sql.ErrNoRows\<close> in the handlers) and \<open>ErrDriver\<close> its StorageError.
\<close>

type_synonym DB = "Document list"

definition key :: "Document \<Rightarrow> string \<times> int" where
  "key d = (ID d, Version d)"

definition rows_of :: "DB \<Rightarrow> string \<Rightarrow> Document list" where
  "rows_of db documentID = filter (\<lambda>d. ID d = documentID) db"

text \<open>The primary key of the schema: no two rows share (id, version).\<close>

definition primary_key :: "DB \<Rightarrow> bool" where
  "primary_key db = distinct (map key db)"

text \<open>
  Modelled from the spec: the Version Clock, \<open>next_version\<close>, returns the current time as
  a Unix timestamp. The argument is the wall clock's reading, in seconds since the epoch.
\<close>

definition next_version :: "int \<Rightarrow> int" where
  "next_version clock = clock"

text \<open>
  Modelled from the spec: a single-row insert, which the absent database layer leaves to
  the engine. The engine refuses a row whose (id, version) is already stored.
\<close>

definition insert_row :: "DB \<Rightarrow> Document \<Rightarrow> error + DB" where
  "insert_row db d = (if key d \<in> set (map key db) then Inl ErrDriver else Inr (db @ [d]))"

text \<open>
  Modelled from the spec: \<open>create\<close>, for the absent \<open>CreateDocument\<close>. \<open>newID\<close> is the
  identifier the server generated for the document and \<open>clock\<close> the wall clock's
  reading.
\<close>

definition DB_CreateDocument ::
  "DB \<Rightarrow> string \<Rightarrow> int \<Rightarrow> string \<Rightarrow> string \<Rightarrow> error + (Document \<times> DB)" where
  "DB_CreateDocument db newID clock content language =
     (let doc = \<lparr>ID = newID, Version = next_version clock,
                 Content = content, Language = language\<rparr>
      in case insert_row db doc of
           Inl err \<Rightarrow> Inl err
         | Inr db' \<Rightarrow> Inr (doc, db'))"

text \<open>
  Modelled from the spec: the row with the greatest version among \<open>d # ds\<close>; of two rows
  with the same version the one inserted later.
\<close>

definition latest :: "Document \<Rightarrow> Document list \<Rightarrow> Document" where
  "latest d ds = foldl (\<lambda>best x. if Version best \<le> Version x then x else best) d ds"

text \<open>Modelled from the spec: \<open>get_latest\<close>, for the absent \<open>GetDocument\<close>.\<close>

definition DB_GetDocument :: "DB \<Rightarrow> string \<Rightarrow> error + Document" where
  "DB_GetDocument db documentID =
     (case rows_of db documentID of
        [] \<Rightarrow> Inl ErrNoRows
      | d # ds \<Rightarrow> Inr (latest d ds))"

text \<open>Modelled from the spec: \<open>get_version\<close>, for the absent \<open>GetDocumentVersion\<close>.\<close>

definition DB_GetDocumentVersion :: "DB \<Rightarrow> string \<Rightarrow> int \<Rightarrow> error + Document" where
  "DB_GetDocumentVersion db documentID version =
     (case find (\<lambda>d. ID d = documentID \<and> Version d = version) db of
        None \<Rightarrow> Inl ErrNoRows
      | Some d \<Rightarrow> Inr d)"

text \<open>
  Modelled from the spec: \<open>list_versions\<close>, for the absent \<open>GetDocumentVersions\<close>:
  ascending by version, without the content unless asked for.
\<close>

definition DB_GetDocumentVersions :: "DB \<Rightarrow> string \<Rightarrow> bool \<Rightarrow> error + Document list" where
  "DB_GetDocumentVersions db documentID withContent =
     Inr (map (\<lambda>d. if withContent then d else d\<lparr>Content := []\<rparr>)
            (sort_key Version (rows_of db documentID)))"

text \<open>
  Modelled from the spec: \<open>update\<close>, for the absent \<open>UpdateDocument\<close>: a new row under
  an identifier that has one already.
\<close>

definition DB_UpdateDocument ::
  "DB \<Rightarrow> string \<Rightarrow> int \<Rightarrow> string \<Rightarrow> string \<Rightarrow> error + (Document \<times> DB)" where
  "DB_UpdateDocument db documentID clock content language =
     (if rows_of db documentID = [] then Inl ErrNoRows
      else
        (let doc = \<lparr>ID = documentID, Version = next_version clock,
                    Content = content, Language = language\<rparr>
         in case insert_row db doc of
              Inl err \<Rightarrow> Inl err
            | Inr db' \<Rightarrow> Inr (doc, db')))"

text \<open>Modelled from the spec: \<open>delete_all\<close>, for the absent \<open>DeleteDocument\<close>.\<close>

definition DB_DeleteDocument :: "DB \<Rightarrow> string \<Rightarrow> error + DB" where
  "DB_DeleteDocument db documentID =
     (if rows_of db documentID = [] then Inl ErrNoRows
      else Inr (filter (\<lambda>d. ID d \<noteq> documentID) db))"

text \<open>Modelled from the spec: \<open>delete_version\<close>, for the absent \<open>DeleteDocumentByVersion\<close>.\<close>

definition DB_DeleteDocumentByVersion :: "DB \<Rightarrow> string \<Rightarrow> int \<Rightarrow> error + DB" where
  "DB_DeleteDocumentByVersion db documentID version =
     (if find (\<lambda>d. ID d = documentID \<and> Version d = version) db = None then Inl ErrNoRows
      else Inr (filter (\<lambda>d. key d \<noteq> (documentID, version)) db))"

text \<open>Modelled from the spec: \<open>count_versions\<close>, for the absent \<open>GetVersionCount\<close>.\<close>

definition DB_GetVersionCount :: "DB \<Rightarrow> string \<Rightarrow> error + nat" where
  "DB_GetVersionCount db documentID = Inr (length (rows_of db documentID))"

text \<open>
  The store's operations as values, and the table an operation leaves: the new table
  when the operation succeeds, the old one when it fails or only reads.
\<close>

datatype store_op =
    Create string int string string
  | GetLatest string
  | GetVersion string int
  | ListVersions string bool
  | Update string int string string
  | DeleteAll string
  | DeleteVersion string int
  | CountVersions string

fun run_op :: "store_op \<Rightarrow> DB \<Rightarrow> DB" where
  "run_op (Create newID clock content language) db =
     (case DB_CreateDocument db newID clock content language of
        Inl err \<Rightarrow> db | Inr (doc, db') \<Rightarrow> db')"
| "run_op (GetLatest documentID) db = db"
| "run_op (GetVersion documentID version) db = db"
| "run_op (ListVersions documentID withContent) db = db"
| "run_op (Update documentID clock content language) db =
     (case DB_UpdateDocument db documentID clock content language of
        Inl err \<Rightarrow> db | Inr (doc, db') \<Rightarrow> db')"
| "run_op (DeleteAll documentID) db =
     (case DB_DeleteDocument db documentID of Inl err \<Rightarrow> db | Inr db' \<Rightarrow> db')"
| "run_op (DeleteVersion documentID version) db =
     (case DB_DeleteDocumentByVersion db documentID version of Inl err \<Rightarrow> db | Inr db' \<Rightarrow> db')"
| "run_op (CountVersions documentID) db = db"

fun is_delete :: "store_op \<Rightarrow> bool" where
  "is_delete (DeleteAll documentID) = True"
| "is_delete (DeleteVersion documentID version) = True"
| "is_delete other = False"

section \<open>The server\<close>

record RateLimitConfig =
  Requests :: int
  Duration :: int

text \<open>
  The fields of \<^verbatim>\<open>Config\<close> that the handlers and the router read. \<open>RateLimit\<close> is a
  pointer in the source: \<open>None\<close> is \<^verbatim>\<open>nil\<close>, an unset rate limit.
\<close>

record Config =
  Debug :: bool
  MaxDocumentSize :: int
  RateLimit :: "RateLimitConfig option"

text \<open>
  The server: its configuration, its database and its signer, which serialises claims
  into a token or fails.
\<close>

record Server =
  cfg :: Config
  db :: DB
  signer :: "Claims \<Rightarrow> string option"

text \<open>
  What a handler reads from outside the request and the server while it runs: the local
  time zone, the wall clock (seconds since the epoch), and the identifier generated for
  a new document.
\<close>

record Env =
  zone :: "int \<Rightarrow> int"
  clock :: int
  newID :: string

definition time_Now :: "Env \<Rightarrow> Time" where
  "time_Now env = time_Unix (zone env) (clock env)"

text \<open>
  Modelled from the spec: \<open>NewToken\<close> (in the absent \<^verbatim>\<open>jwt.go\<close>) signs claims binding
  the document to the permissions.
\<close>

definition NewToken :: "Server \<Rightarrow> string \<Rightarrow> Permission list \<Rightarrow> error + string" where
  "NewToken s documentID permissions =
     (case signer s \<lparr>Subject = documentID, Permissions = permissions\<rparr> of
        None \<Rightarrow> Inl ErrSigner
      | Some token \<Rightarrow> Inr token)"

section \<open>Helpers of the handlers\<close>

text \<open>
  A document's content is modelled as the sequence of its characters, so that
  \<^verbatim>\<open>len([]rune(content))\<close> is its length.
\<close>

definition readBody :: "Request \<Rightarrow> response option \<times> string" where
  "readBody r =
     (case Body r of
        None \<Rightarrow> (Some (Failure ErrReadBody StatusInternalServerError), [])
      | Some content \<Rightarrow>
          if length content = 0 then (Some (Failure ErrEmptyBody StatusBadRequest), [])
          else (None, content))"

definition exceedsMaxDocumentSize :: "Server \<Rightarrow> string \<Rightarrow> response option \<times> bool" where
  "exceedsMaxDocumentSize s content =
     (if MaxDocumentSize (cfg s) > 0 \<and> int (length content) > MaxDocumentSize (cfg s)
      then (Some (Failure (ErrContentTooLarge (MaxDocumentSize (cfg s))) StatusBadRequest), True)
      else (None, False))"

definition version_response :: "Document \<Rightarrow> DocumentResponse" where
  "version_response document =
     \<lparr>Key = ID document, Version_rs = Version document, VersionLabel = [], VersionTime = [],
      Data = Content document, Formatted = [], CSS = [], Language_rs = Language document,
      Token = []\<rparr>"

section \<open>Handlers of \<^verbatim>\<open>gobin/routes.go\<close>\<close>

text \<open>
  \<^verbatim>\<open>parseDocumentVersion\<close>: the response written, if any, the document's identifier and
  the version.
\<close>

definition parseDocumentVersion :: "Request \<Rightarrow> response option \<times> string \<times> int" where
  "parseDocumentVersion r =
     (let documentID = URLParam r ''documentID'';
          version = URLParam r ''version''
      in if documentID = [] \<or> version = [] then (Some documentNotFound, [], - 1)
         else
           (case ParseInt version of
              None \<Rightarrow> (Some documentNotFound, [], - 1)
            | Some int64Version \<Rightarrow> (None, documentID, int64Version)))"

definition GetDocumentVersion :: "Server \<Rightarrow> Request \<Rightarrow> response" where
  "GetDocumentVersion s r =
     (let (w, documentID, version) = parseDocumentVersion r
      in if documentID = [] then written w
         else
           (case DB_GetDocumentVersion (db s) documentID version of
              Inl err \<Rightarrow>
                if err = ErrNoRows then documentNotFound
                else Failure err StatusInternalServerError
            | Inr document \<Rightarrow> ok (DocumentPayload (version_response document))))"

text \<open>
  \<^verbatim>\<open>DeleteDocumentVersion\<close>. The source passes the version before the identifier to the
  database; the two have different types, so the order is the signature's.
\<close>

definition DeleteDocumentVersion :: "Server \<Rightarrow> Request \<Rightarrow> response \<times> DB" where
  "DeleteDocumentVersion s r =
     (let (w, documentID, version) = parseDocumentVersion r
      in if documentID = [] then (written w, db s)
         else
           (case DB_DeleteDocumentByVersion (db s) documentID version of
              Inl err \<Rightarrow>
                if err = ErrNoRows then (documentNotFound, db s)
                else (Failure err StatusInternalServerError, db s)
            | Inr db' \<Rightarrow>
                (case DB_GetVersionCount db' documentID of
                   Inl err \<Rightarrow> (Failure err StatusInternalServerError, db')
                 | Inr count \<Rightarrow> (ok (DeleteResponse count), db'))))"

text \<open>\<^verbatim>\<open>getDocument\<close>: the response written, if any, and the document (\<open>None\<close> is \<^verbatim>\<open>nil\<close>).\<close>

definition getDocument :: "Server \<Rightarrow> Request \<Rightarrow> response option \<times> Document option" where
  "getDocument s r =
     (let documentID = URLParam r ''documentID''
      in if documentID = []
         then (None, Some \<lparr>ID = [], Version = 0, Content = [], Language = []\<rparr>)
         else
           (case DB_GetDocument (db s) documentID of
              Inl err \<Rightarrow>
                if err = ErrNoRows then (Some documentNotFound, None)
                else (Some (Failure err StatusInternalServerError), None)
            | Inr document \<Rightarrow> (None, Some document)))"

definition PostDocument :: "Env \<Rightarrow> Server \<Rightarrow> Request \<Rightarrow> response \<times> DB" where
  "PostDocument env s r =
     (let language = Header_Language r;
          (w, content) = readBody r
      in if content = [] then (written w, db s)
         else
           (let (w', exceeds) = exceedsMaxDocumentSize s content
            in if exceeds then (written w', db s)
               else
                 (case DB_CreateDocument (db s) (newID env) (clock env) content language of
                    Inl err \<Rightarrow> (Failure err StatusInternalServerError, db s)
                  | Inr (document, db') \<Rightarrow>
                      (case NewToken s (ID document)
                              [PermissionWrite, PermissionDelete, PermissionShare] of
                         Inl err \<Rightarrow> (Failure err StatusInternalServerError, db')
                       | Inr token \<Rightarrow>
                           (let (versionLabel, versionTime) =
                                  FormatDocumentVersion (zone env) (time_Now env) (Version document)
                            in (ok (DocumentPayload
                                  \<lparr>Key = ID document, Version_rs = Version document,
                                   VersionLabel = versionLabel, VersionTime = versionTime,
                                   Data = [], Formatted = [], CSS = [], Language_rs = [],
                                   Token = token\<rparr>), db'))))))"

text \<open>
  The handlers that check the caller's claims are written in two parts: the handler up
  to and including the check, and, under the suffix \<open>_authorized\<close>, the statements
  that follow the check.
\<close>

definition PatchDocument_authorized ::
  "Env \<Rightarrow> Server \<Rightarrow> Request \<Rightarrow> string \<Rightarrow> string \<Rightarrow> response \<times> DB" where
  "PatchDocument_authorized env s r documentID language =
     (let (w, content) = readBody r
      in if content = [] then (written w, db s)
         else
           (let (w', exceeds) = exceedsMaxDocumentSize s content
            in if exceeds then (written w', db s)
               else
                 (case DB_UpdateDocument (db s) documentID (clock env) content language of
                    Inl err \<Rightarrow>
                      if err = ErrNoRows then (documentNotFound, db s)
                      else (Failure err StatusInternalServerError, db s)
                  | Inr (document, db') \<Rightarrow>
                      (let (versionLabel, versionTime) =
                             FormatDocumentVersion (zone env) (time_Now env) (Version document)
                       in (ok (DocumentPayload
                             \<lparr>Key = ID document, Version_rs = Version document,
                              VersionLabel = versionLabel, VersionTime = versionTime,
                              Data = [], Formatted = [], CSS = [], Language_rs = [],
                              Token = []\<rparr>), db')))))"

definition PatchDocument :: "Env \<Rightarrow> Server \<Rightarrow> Request \<Rightarrow> response \<times> DB" where
  "PatchDocument env s r =
     (let documentID = URLParam r ''documentID'';
          language = Header_Language r;
          claims = GetClaims r
      in if Subject claims \<noteq> documentID
            \<or> \<not> slices_Contains (Permissions claims) PermissionWrite
         then (documentNotFound, db s)
         else PatchDocument_authorized env s r documentID language)"

definition DeleteDocument_authorized :: "Server \<Rightarrow> string \<Rightarrow> response \<times> DB" where
  "DeleteDocument_authorized s documentID =
     (case DB_DeleteDocument (db s) documentID of
        Inl err \<Rightarrow>
          if err = ErrNoRows then (documentNotFound, db s)
          else (Failure err StatusInternalServerError, db s)
      | Inr db' \<Rightarrow> (HeaderOnly StatusNoContent, db'))"

definition DeleteDocument :: "Server \<Rightarrow> Request \<Rightarrow> response \<times> DB" where
  "DeleteDocument s r =
     (let documentID = URLParam r ''documentID'';
          claims = GetClaims r
      in if Subject claims \<noteq> documentID
            \<or> \<not> slices_Contains (Permissions claims) PermissionDelete
         then (documentNotFound, db s)
         else DeleteDocument_authorized s documentID)"

record ShareRequest =
  Permissions_rq :: "Permission list"

definition PostDocumentShare_authorized ::
  "Server \<Rightarrow> string \<Rightarrow> ShareRequest \<Rightarrow> Claims \<Rightarrow> response" where
  "PostDocumentShare_authorized s documentID shareRequest claims =
     (case find (\<lambda>permission. \<not> slices_Contains (Permissions claims) permission)
             (Permissions_rq shareRequest) of
        Some permission \<Rightarrow> Failure (ErrPermissionDenied permission) StatusForbidden
      | None \<Rightarrow>
          (case NewToken s documentID (Permissions_rq shareRequest) of
             Inl err \<Rightarrow> Failure err StatusInternalServerError
           | Inr token \<Rightarrow> ok (ShareResponse token)))"

text \<open>
  \<^verbatim>\<open>PostDocumentShare\<close>, identical in both revisions. \<open>decode\<close> is the JSON decoder
  applied to the body: \<open>None\<close> when the body is not JSON for a share request.
\<close>

definition PostDocumentShare ::
  "(string \<Rightarrow> ShareRequest option) \<Rightarrow> Server \<Rightarrow> Request \<Rightarrow> response" where
  "PostDocumentShare decode s r =
     (let documentID = URLParam r ''documentID'' in
      case Option.bind (Body r) decode of
        None \<Rightarrow> Failure ErrJSONDecode StatusBadRequest
      | Some shareRequest \<Rightarrow>
          if length (Permissions_rq shareRequest) = 0
          then Failure ErrNoPermissions StatusBadRequest
          else
            (case find (\<lambda>permission. \<not> IsValid permission) (Permissions_rq shareRequest) of
               Some permission \<Rightarrow> Failure (ErrUnknownPermission permission) StatusBadRequest
             | None \<Rightarrow>
                 (let claims = GetClaims r in
                  if Subject claims \<noteq> documentID
                     \<or> \<not> slices_Contains (Permissions claims) PermissionShare
                  then documentNotFound
                  else PostDocumentShare_authorized s documentID shareRequest claims)))"

section \<open>Handlers of the later revision of \<^verbatim>\<open>routes.go\<close>\<close>

text \<open>
  The later revision binds the version from an optional path segment and routes reads
  and deletes of a single version to the handlers of the whole document.
  \<^verbatim>\<open>parseDocumentVersion\<close> returns the response written, if any, and the version:
  0 when no version is bound, -1 after a failed parse.
\<close>

definition parseDocumentVersion_v2 :: "Request \<Rightarrow> response option \<times> int" where
  "parseDocumentVersion_v2 r =
     (let version = URLParam r ''version''
      in if version = [] then (None, 0)
         else
           (case ParseInt version of
              None \<Rightarrow> (Some documentNotFound, - 1)
            | Some int64Version \<Rightarrow> (None, int64Version)))"

definition getDocument_v2 :: "Server \<Rightarrow> Request \<Rightarrow> response option \<times> Document option" where
  "getDocument_v2 s r =
     (let documentID = URLParam r ''documentID''
      in if documentID = []
         then (None, Some \<lparr>ID = [], Version = 0, Content = [], Language = []\<rparr>)
         else
           (let (w, version) = parseDocumentVersion_v2 r
            in if version = - 1 then (w, None)
               else
                 (case (if version = 0 then DB_GetDocument (db s) documentID
                        else DB_GetDocumentVersion (db s) documentID version) of
                    Inl err \<Rightarrow>
                      if err = ErrNoRows then (Some documentNotFound, None)
                      else (Some (Failure err StatusInternalServerError), None)
                  | Inr document \<Rightarrow> (None, Some document))))"

text \<open>
  \<^verbatim>\<open>DeleteDocument\<close> of the later revision. It may write twice (a bare status 204, then
  the count of remaining versions), so the result lists what it wrote, in order.
\<close>

definition DeleteDocument_v2 :: "Server \<Rightarrow> Request \<Rightarrow> response list \<times> DB" where
  "DeleteDocument_v2 s r =
     (let documentID = URLParam r ''documentID'';
          (w, version) = parseDocumentVersion_v2 r
      in if version = - 1 then (case w of None \<Rightarrow> [] | Some rs \<Rightarrow> [rs], db s)
         else
           (let claims = GetClaims r
            in if Subject claims \<noteq> documentID
                  \<or> \<not> slices_Contains (Permissions claims) PermissionDelete
               then ([documentNotFound], db s)
               else
                 (case (if version = 0 then DB_DeleteDocument (db s) documentID
                        else DB_DeleteDocumentByVersion (db s) documentID version) of
                    Inl err \<Rightarrow>
                      if err = ErrNoRows then ([documentNotFound], db s)
                      else ([Failure err StatusInternalServerError], db s)
                  | Inr db' \<Rightarrow>
                      (let first = (if version = 0 then [HeaderOnly StatusNoContent] else [])
                       in case DB_GetVersionCount db' documentID of
                            Inl err \<Rightarrow> (first @ [Failure err StatusInternalServerError], db')
                          | Inr count \<Rightarrow> (first @ [ok (DeleteResponse count)], db')))))"

text \<open>
  The lexers of the highlighting library, each known by the name of its configuration:
  \<open>lexers_Get\<close> and \<open>lexers_Analyse\<close> return \<open>None\<close> for \<^verbatim>\<open>nil\<close>.
\<close>

record Lexers =
  lexers_Get :: "string \<Rightarrow> string option"
  lexers_Analyse :: "string \<Rightarrow> string option"
  lexers_Fallback :: string

text \<open>The name of the lexer that \<^verbatim>\<open>PostDocument\<close> and \<^verbatim>\<open>PatchDocument\<close> store as language.\<close>

definition lexer_name :: "Lexers \<Rightarrow> string \<Rightarrow> string \<Rightarrow> string" where
  "lexer_name lx language content =
     (let lexer = (if language = ''auto'' \<or> language = [] then lexers_Analyse lx content
                   else lexers_Get lx language)
      in case lexer of None \<Rightarrow> lexers_Fallback lx | Some name \<Rightarrow> name)"

text \<open>
  \<^verbatim>\<open>PostDocument\<close> of the later revision. \<open>render\<close> is \<^verbatim>\<open>renderDocument\<close>, which calls
  the highlighting library: it fails or returns the formatted text, the style sheet, the
  language and the style.
\<close>

definition PostDocument_v2 ::
  "Lexers \<Rightarrow> (Request \<Rightarrow> Document \<Rightarrow> string \<Rightarrow> error + (string \<times> string \<times> string \<times> string))
     \<Rightarrow> Env \<Rightarrow> Server \<Rightarrow> Request \<Rightarrow> response \<times> DB" where
  "PostDocument_v2 lx render env s r =
     (let language = Header_Language r;
          (w, content) = readBody r
      in if content = [] then (written w, db s)
         else if ContextDone r then (Nothing, db s)
         else
           (let (w', exceeds) = exceedsMaxDocumentSize s content
            in if exceeds then (written w', db s)
               else
                 (case DB_CreateDocument (db s) (newID env) (clock env) content
                         (lexer_name lx language content) of
                    Inl err \<Rightarrow> (Failure err StatusInternalServerError, db s)
                  | Inr (document, db') \<Rightarrow>
                      (case (if Query_render r \<noteq> []
                             then (case render r document (Query_render r) of
                                     Inl err \<Rightarrow> Inl err
                                   | Inr (formatted, css, finalLanguage, style) \<Rightarrow>
                                       Inr (Content document, formatted, css, finalLanguage))
                             else Inr ([], [], [], [])) of
                         Inl err \<Rightarrow> (Failure err StatusInternalServerError, db')
                       | Inr (data, formatted, css, finalLanguage) \<Rightarrow>
                           (case NewToken s (ID document)
                                   [PermissionWrite, PermissionDelete, PermissionShare] of
                              Inl err \<Rightarrow> (Failure err StatusInternalServerError, db')
                            | Inr token \<Rightarrow>
                                (let (versionLabel, versionTime) =
                                       FormatDocumentVersion (zone env) (time_Now env)
                                         (Version document)
                                 in (ok (DocumentPayload
                                       \<lparr>Key = ID document, Version_rs = Version document,
                                        VersionLabel = versionLabel, VersionTime = versionTime,
                                        Data = data, Formatted = formatted, CSS = css,
                                        Language_rs = finalLanguage, Token = token\<rparr>), db')))))))"

section \<open>The router and the rate limiter\<close>

text \<open>The handlers that \<^verbatim>\<open>Routes\<close> registers.\<close>

datatype handler =
    H_GetRawDocument
  | H_GetRawDocumentVersion
  | H_PostDocument
  | H_GetDocument
  | H_PatchDocument
  | H_DeleteDocument
  | H_PostDocumentShare
  | H_DocumentVersions
  | H_GetDocumentVersion
  | H_DeleteDocumentVersion
  | H_GetVersion
  | H_GetPrettyDocument

text \<open>
  The routes of \<^verbatim>\<open>gobin/routes.go\<close>: method, pattern, handler. The mounts of the
  static assets and of the profiler take every method and are not endpoints of the
  document interface; they are not listed.
\<close>

definition Routes :: "(string \<times> string \<times> handler) list" where
  "Routes =
     [(MethodGet, ''/raw/{documentID}/'', H_GetRawDocument),
      (MethodHead, ''/raw/{documentID}/'', H_GetRawDocument),
      (MethodGet, ''/raw/{documentID}/versions/{version}/'', H_GetRawDocumentVersion),
      (MethodHead, ''/raw/{documentID}/versions/{version}/'', H_GetRawDocumentVersion),
      (MethodPost, ''/documents/'', H_PostDocument),
      (MethodGet, ''/documents/{documentID}/'', H_GetDocument),
      (MethodPatch, ''/documents/{documentID}/'', H_PatchDocument),
      (MethodDelete, ''/documents/{documentID}/'', H_DeleteDocument),
      (MethodPost, ''/documents/{documentID}/share'', H_PostDocumentShare),
      (MethodGet, ''/documents/{documentID}/versions/'', H_DocumentVersions),
      (MethodGet, ''/documents/{documentID}/versions/{version}/'', H_GetDocumentVersion),
      (MethodDelete, ''/documents/{documentID}/versions/{version}/'', H_DeleteDocumentVersion),
      (MethodGet, ''/version'', H_GetVersion),
      (MethodGet, ''/{documentID}'', H_GetPrettyDocument),
      (MethodHead, ''/{documentID}'', H_GetPrettyDocument),
      (MethodGet, ''/'', H_GetPrettyDocument),
      (MethodHead, ''/'', H_GetPrettyDocument)]"

text \<open>The routes of the later revision.\<close>

definition Routes_v2 :: "(string \<times> string \<times> handler) list" where
  "Routes_v2 =
     [(MethodGet, ''/raw/{documentID}/'', H_GetRawDocument),
      (MethodHead, ''/raw/{documentID}/'', H_GetRawDocument),
      (MethodGet, ''/raw/{documentID}/versions/{version}/'', H_GetRawDocument),
      (MethodHead, ''/raw/{documentID}/versions/{version}/'', H_GetRawDocument),
      (MethodPost, ''/documents/'', H_PostDocument),
      (MethodGet, ''/documents/{documentID}/'', H_GetDocument),
      (MethodPatch, ''/documents/{documentID}/'', H_PatchDocument),
      (MethodDelete, ''/documents/{documentID}/'', H_DeleteDocument),
      (MethodPost, ''/documents/{documentID}/share'', H_PostDocumentShare),
      (MethodGet, ''/documents/{documentID}/versions/'', H_DocumentVersions),
      (MethodGet, ''/documents/{documentID}/versions/{version}/'', H_GetDocument),
      (MethodDelete, ''/documents/{documentID}/versions/{version}/'', H_DeleteDocument),
      (MethodGet, ''/version'', H_GetVersion),
      (MethodGet, ''/{documentID}'', H_GetPrettyDocument),
      (MethodHead, ''/{documentID}'', H_GetPrettyDocument),
      (MethodGet, ''/{documentID}/{version}'', H_GetPrettyDocument),
      (MethodHead, ''/{documentID}/{version}'', H_GetPrettyDocument),
      (MethodGet, ''/'', H_GetPrettyDocument),
      (MethodHead, ''/'', H_GetPrettyDocument)]"

text \<open>
  The condition under which \<^verbatim>\<open>Routes\<close> (and \<^verbatim>\<open>NewServer\<close>) builds the rate limiter.
\<close>

definition rateLimiter_installed :: "Config \<Rightarrow> bool" where
  "rateLimiter_installed c =
     (case RateLimit c of
        None \<Rightarrow> False
      | Some rl \<Rightarrow> Requests rl > 0 \<and> Duration rl > 0)"

text \<open>The predicate given to \<^verbatim>\<open>middleware.Maybe\<close>.\<close>

definition rateLimited_method :: "Request \<Rightarrow> bool" where
  "rateLimited_method r =
     (Method r = MethodPost \<or> Method r = MethodPatch \<or> Method r = MethodDelete)"

text \<open>
  The rate-limiting middleware. \<open>over_limit\<close> is the decision of the limiter of the
  \<^verbatim>\<open>httprate\<close> library for the request (its counters are the library's); \<open>next\<close> is the
  response of the rest of the chain.
\<close>

definition rateLimit_middleware ::
  "Config \<Rightarrow> (Request \<Rightarrow> bool) \<Rightarrow> (Request \<Rightarrow> response) \<Rightarrow> Request \<Rightarrow> response" where
  "rateLimit_middleware c over_limit next r =
     (if rateLimiter_installed c
      then (if rateLimited_method r
            then (if over_limit r then rateLimit else next r)
            else next r)
      else next r)"

text \<open>Whether the middleware hands the request to the limiter at all.\<close>

definition passes_limiter :: "Config \<Rightarrow> Request \<Rightarrow> bool" where
  "passes_limiter c r = (rateLimiter_installed c \<and> rateLimited_method r)"

text \<open>The handlers that only read: they call no creating, updating or deleting operation.\<close>

fun read_only :: "handler \<Rightarrow> bool" where
  "read_only H_GetRawDocument = True"
| "read_only H_GetRawDocumentVersion = True"
| "read_only H_GetDocument = True"
| "read_only H_DocumentVersions = True"
| "read_only H_GetDocumentVersion = True"
| "read_only H_GetVersion = True"
| "read_only H_GetPrettyDocument = True"
| "read_only H_PostDocument = False"
| "read_only H_PatchDocument = False"
| "read_only H_DeleteDocument = False"
| "read_only H_DeleteDocumentVersion = False"
| "read_only H_PostDocumentShare = False"

section \<open>Notions of the specification\<close>

text \<open>The three ways a share body fails validation.\<close>

definition rejected_body :: "(string \<Rightarrow> ShareRequest option) \<Rightarrow> Request \<Rightarrow> bool" where
  "rejected_body decode r =
     (case Option.bind (Body r) decode of
        None \<Rightarrow> True
      | Some shareRequest \<Rightarrow>
          Permissions_rq shareRequest = [] \<or> list_ex (\<lambda>p. \<not> IsValid p) (Permissions_rq shareRequest))"

text \<open>
  The error kinds of the specification, and the kind under which a response is
  surfaced: by its status.
\<close>

datatype error_kind = NotFound | Forbidden | Invalid | RateLimited | StorageError

definition kind_of :: "response \<Rightarrow> error_kind option" where
  "kind_of rs =
     (case rs of
        Failure e st \<Rightarrow>
          if st = StatusNotFound then Some NotFound
          else if st = StatusForbidden then Some Forbidden
          else if st = StatusBadRequest then Some Invalid
          else if st = StatusTooManyRequests then Some RateLimited
          else if st = StatusInternalServerError then Some StorageError
          else None
      | _ \<Rightarrow> None)"

text \<open>
  The decision rule of the authorization gate: the claims name the document and hold the
  permission.
\<close>

definition authorized :: "Request \<Rightarrow> Permission \<Rightarrow> bool" where
  "authorized r p =
     (Subject (GetClaims r) = URLParam r ''documentID'' \<and> p \<in> set (Permissions (GetClaims r)))"

text \<open>A well-formed integer: an optional sign, then one decimal digit or more.\<close>

definition well_formed_integer :: "string \<Rightarrow> bool" where
  "well_formed_integer s =
     (case s of
        [] \<Rightarrow> False
      | c # cs \<Rightarrow>
          (let ds = (if c = CHR ''+'' \<or> c = CHR ''-'' then cs else s)
           in ds \<noteq> [] \<and> list_all is_digit ds))"

text \<open>
  The label as the claim describes it: the first of year, month, day, hour, minute in
  which the version's component is below the current one decides, and its difference is
  displayed; otherwise the difference of the seconds.
\<close>

definition components :: "((Time \<Rightarrow> int) \<times> string) list" where
  "components =
     [(Year, ''years''), (Month, ''months''), (Day, ''days''), (Hour, ''hours''),
      (Minute, ''minutes'')]"

definition version_label :: "Time \<Rightarrow> Time \<Rightarrow> string" where
  "version_label version now =
     (case find (\<lambda>(component, unit). component version < component now) components of
        Some (component, unit) \<Rightarrow>
          Sprintf_d (component now - component version) @ '' '' @ unit @ '' ago''
      | None \<Rightarrow> Sprintf_d (Second now - Second version) @ '' seconds ago'')"

section \<open>Example values\<close>

text \<open>A server with two versions of the document \<open>abc\<close> and one of \<open>xyz\<close>.\<close>

definition example_db :: DB where
  "example_db =
     [\<lparr>ID = ''abc'', Version = 1700000000, Content = ''hello'', Language = ''go''\<rparr>,
      \<lparr>ID = ''xyz'', Version = 1700000050, Content = ''other'', Language = ''text''\<rparr>,
      \<lparr>ID = ''abc'', Version = 1700000100, Content = ''world'', Language = ''go''\<rparr>]"

text \<open>A table in which the document \<open>abc\<close> has a row with version 0 and a later row.\<close>

definition example_db_zero :: DB where
  "example_db_zero =
     [\<lparr>ID = ''abc'', Version = 0, Content = ''zero'', Language = ''text''\<rparr>,
      \<lparr>ID = ''abc'', Version = 1700000000, Content = ''hello'', Language = ''go''\<rparr>]"

definition example_signer :: "Claims \<Rightarrow> string option" where
  "example_signer c = Some (''token:'' @ Subject c @ '':'' @ concat (Permissions c))"

definition example_server :: Server where
  "example_server =
     \<lparr>cfg = \<lparr>Debug = False, MaxDocumentSize = 0, RateLimit = None\<rparr>,
      db = example_db, signer = example_signer\<rparr>"

definition example_env :: Env where
  "example_env = \<lparr>zone = UTC, clock = 1700000200, newID = ''new''\<rparr>"

definition no_claims :: Claims where
  "no_claims = \<lparr>Subject = [], Permissions = []\<rparr>"

definition owner_claims :: Claims where
  "owner_claims =
     \<lparr>Subject = ''abc'', Permissions = [PermissionWrite, PermissionDelete, PermissionShare]\<rparr>"

definition writer_claims :: Claims where
  "writer_claims = \<lparr>Subject = ''abc'', Permissions = [PermissionShare, PermissionWrite]\<rparr>"

text \<open>A share body is written here as the names it lists, separated by commas.\<close>

fun split_commas :: "string \<Rightarrow> string \<Rightarrow> string list" where
  "split_commas acc [] = [rev acc]"
| "split_commas acc (c # cs) =
     (if c = CHR '','' then rev acc # split_commas [] cs else split_commas (c # acc) cs)"

definition example_decode :: "string \<Rightarrow> ShareRequest option" where
  "example_decode body =
     (if body = ''{'' then None
      else if body = [] then Some \<lparr>Permissions_rq = []\<rparr>
      else Some \<lparr>Permissions_rq = split_commas [] body\<rparr>)"

definition example_request :: "string \<Rightarrow> (string \<times> string) list \<Rightarrow> string \<Rightarrow> Claims \<Rightarrow> Request" where
  "example_request method params body claims =
     \<lparr>Method = method, URLParams = params, Header_Language = ''go'', Query_render = [],
      Body = Some body, ContextDone = False, ContextClaims = claims\<rparr>"

section \<open>Properties of the share handler\<close>

lemmas Status_defs =
  StatusOK_def StatusNoContent_def StatusBadRequest_def StatusForbidden_def
  StatusNotFound_def StatusTooManyRequests_def StatusInternalServerError_def

lemmas Method_defs =
  MethodGet_def MethodHead_def MethodPost_def MethodPatch_def MethodDelete_def

lemma find_invalid_Some:
  "list_ex P xs \<Longrightarrow> \<exists>x. find P xs = Some x"
  by (induction xs) auto

text \<open>
  C9. On the share endpoint the body is validated before the caller is authorised: a
  body that is not JSON, that names no permission, or that names a permission outside
  write, delete, share is answered with status 400 whatever claims the request carries
  (none, or claims for another document), so the answer is not the not-found answer of
  the authorisation check.
\<close>

theorem share_validation_precedes_authorization:
  "rejected_body decode r \<Longrightarrow>
     kind_of (PostDocumentShare decode s r) = Some Invalid
     \<and> PostDocumentShare decode s r \<noteq> documentNotFound
     \<and> PostDocumentShare decode s (r\<lparr>ContextClaims := c\<rparr>) = PostDocumentShare decode s r"
proof -
  assume rej: "rejected_body decode r"
  show ?thesis
  proof (cases "Option.bind (Body r) decode")
    case None
    then show ?thesis
      by (simp add: PostDocumentShare_def kind_of_def documentNotFound_def
          URLParam_def Status_defs)
  next
    case (Some rq)
    show ?thesis
    proof (cases "Permissions_rq rq = []")
      case True
      with Some show ?thesis
        by (simp add: PostDocumentShare_def kind_of_def documentNotFound_def
            URLParam_def Status_defs)
    next
      case False
      with rej Some have "list_ex (\<lambda>p. \<not> IsValid p) (Permissions_rq rq)"
        by (simp add: rejected_body_def)
      then obtain p where "find (\<lambda>p. \<not> IsValid p) (Permissions_rq rq) = Some p"
        using find_invalid_Some by blast
      with Some False show ?thesis
        by (simp add: PostDocumentShare_def kind_of_def documentNotFound_def
            URLParam_def Status_defs)
    qed
  qed
qed

theorem share_validation_precedes_authorization_witness:
  "rejected_body example_decode
      (example_request ''POST'' [(''documentID'', ''abc'')] ''admin'' no_claims)
   \<and> PostDocumentShare example_decode example_server
        (example_request ''POST'' [(''documentID'', ''abc'')] ''admin'' no_claims)
      = Failure (ErrUnknownPermission ''admin'') StatusBadRequest
   \<and> PostDocumentShare example_decode example_server
        (example_request ''POST'' [(''documentID'', ''abc'')] ''admin'' no_claims)
      \<noteq> documentNotFound"
proof -
  have rej: "rejected_body example_decode
      (example_request ''POST'' [(''documentID'', ''abc'')] ''admin'' no_claims)"
    by (simp add: rejected_body_def example_decode_def example_request_def IsValid_def
        AllPermissions_def PermissionWrite_def PermissionDelete_def PermissionShare_def)
  have val: "PostDocumentShare example_decode example_server
        (example_request ''POST'' [(''documentID'', ''abc'')] ''admin'' no_claims)
      = Failure (ErrUnknownPermission ''admin'') StatusBadRequest"
    by (simp add: PostDocumentShare_def example_decode_def example_request_def IsValid_def
        AllPermissions_def PermissionWrite_def PermissionDelete_def PermissionShare_def)
  from share_validation_precedes_authorization [OF rej, of example_server no_claims] rej val
  show ?thesis by simp
qed

section \<open>The authorization check\<close>

lemmas Permission_defs =
  PermissionWrite_def PermissionDelete_def PermissionShare_def AllPermissions_def IsValid_def

lemmas example_defs =
  example_request_def example_server_def example_decode_def example_signer_def
  example_db_def no_claims_def owner_claims_def writer_claims_def example_env_def
  example_db_zero_def

lemma kind_of_documentNotFound: "kind_of documentNotFound = Some NotFound"
  by (simp add: kind_of_def documentNotFound_def Status_defs)

lemma not_rejected_body:
  assumes "\<not> rejected_body decode r"
  obtains rq where "Option.bind (Body r) decode = Some rq" "Permissions_rq rq \<noteq> []"
    "find (\<lambda>p. \<not> IsValid p) (Permissions_rq rq) = None"
proof (cases "Option.bind (Body r) decode")
  case None
  with assms show ?thesis by (simp add: rejected_body_def)
next
  case (Some rq)
  with assms have "Permissions_rq rq \<noteq> []" "\<not> list_ex (\<lambda>p. \<not> IsValid p) (Permissions_rq rq)"
    by (simp_all add: rejected_body_def)
  moreover from this(2) have "find (\<lambda>p. \<not> IsValid p) (Permissions_rq rq) = None"
    by (simp add: find_None_iff list_ex_iff)
  ultimately show ?thesis using Some that by blast
qed

lemma PatchDocument_gate:
  "PatchDocument env s r =
     (if authorized r PermissionWrite
      then PatchDocument_authorized env s r (URLParam r ''documentID'') (Header_Language r)
      else (documentNotFound, db s))"
  by (simp add: PatchDocument_def authorized_def slices_Contains_def)

lemma DeleteDocument_gate:
  "DeleteDocument s r =
     (if authorized r PermissionDelete
      then DeleteDocument_authorized s (URLParam r ''documentID'')
      else (documentNotFound, db s))"
  by (simp add: DeleteDocument_def authorized_def slices_Contains_def)

lemma PostDocumentShare_gate:
  assumes "Option.bind (Body r) decode = Some rq" "Permissions_rq rq \<noteq> []"
    "find (\<lambda>p. \<not> IsValid p) (Permissions_rq rq) = None"
  shows "PostDocumentShare decode s r =
     (if authorized r PermissionShare
      then PostDocumentShare_authorized s (URLParam r ''documentID'') rq (GetClaims r)
      else documentNotFound)"
  using assms by (simp add: PostDocumentShare_def authorized_def slices_Contains_def)

text \<open>
  C1, as the code has it. In \<^verbatim>\<open>gobin/routes.go\<close> the update and delete handlers check
  the claims first: unless the claims name the document and hold the permission (write,
  delete) the answer is the not-found error, of kind NotFound and never Forbidden, and
  the store is untouched; when both hold, the handler goes on with the statements after
  the check. The share handler makes the same check for the share permission, but only
  after the body has passed validation: for a share request whose body is JSON and lists
  at least one permission, all of them valid, the answer is the not-found error unless
  the claims name the document and hold share, and otherwise the handler goes on.
\<close>

theorem authorization_gate:
  "PatchDocument env s r =
     (if authorized r PermissionWrite
      then PatchDocument_authorized env s r (URLParam r ''documentID'') (Header_Language r)
      else (documentNotFound, db s))
   \<and> DeleteDocument s r =
     (if authorized r PermissionDelete
      then DeleteDocument_authorized s (URLParam r ''documentID'')
      else (documentNotFound, db s))
   \<and> (\<not> rejected_body decode r \<longrightarrow>
        (\<exists>rq. Option.bind (Body r) decode = Some rq \<and>
          PostDocumentShare decode s r =
            (if authorized r PermissionShare
             then PostDocumentShare_authorized s (URLParam r ''documentID'') rq (GetClaims r)
             else documentNotFound)))
   \<and> kind_of documentNotFound = Some NotFound
   \<and> kind_of documentNotFound \<noteq> Some Forbidden"
proof -
  have share: "\<not> rejected_body decode r \<longrightarrow>
        (\<exists>rq. Option.bind (Body r) decode = Some rq \<and>
          PostDocumentShare decode s r =
            (if authorized r PermissionShare
             then PostDocumentShare_authorized s (URLParam r ''documentID'') rq (GetClaims r)
             else documentNotFound))"
  proof
    assume "\<not> rejected_body decode r"
    then obtain rq where rq: "Option.bind (Body r) decode = Some rq" "Permissions_rq rq \<noteq> []"
      "find (\<lambda>p. \<not> IsValid p) (Permissions_rq rq) = None"
      by (rule not_rejected_body)
    from PostDocumentShare_gate [OF rq] rq(1)
    show "\<exists>rq. Option.bind (Body r) decode = Some rq \<and>
          PostDocumentShare decode s r =
            (if authorized r PermissionShare
             then PostDocumentShare_authorized s (URLParam r ''documentID'') rq (GetClaims r)
             else documentNotFound)"
      by blast
  qed
  show ?thesis
    using PatchDocument_gate [of env s r] DeleteDocument_gate [of s r] share
      kind_of_documentNotFound
    by simp
qed

text \<open>
  A share request that names the permission \<open>write\<close>, sent without a token: the body
  passes validation, the check fails, the answer is not found.
\<close>

theorem authorization_gate_witness:
  "\<not> rejected_body example_decode
      (example_request ''POST'' [(''documentID'', ''abc'')] ''write'' no_claims)
   \<and> \<not> authorized (example_request ''POST'' [(''documentID'', ''abc'')] ''write'' no_claims)
        PermissionShare
   \<and> PostDocumentShare example_decode example_server
        (example_request ''POST'' [(''documentID'', ''abc'')] ''write'' no_claims)
      = documentNotFound
   \<and> DeleteDocument example_server
        (example_request ''DELETE'' [(''documentID'', ''abc'')] [] no_claims)
      = (documentNotFound, example_db)"
proof -
  let ?r = "example_request ''POST'' [(''documentID'', ''abc'')] ''write'' no_claims"
  let ?d = "example_request ''DELETE'' [(''documentID'', ''abc'')] [] no_claims"
  have ok: "\<not> rejected_body example_decode ?r"
    by (simp add: rejected_body_def example_defs Permission_defs)
  have no: "\<not> authorized ?r PermissionShare" "\<not> authorized ?d PermissionDelete"
    by (simp_all add: authorized_def GetClaims_def URLParam_def example_defs Permission_defs)
  have dbs: "db example_server = example_db"
    by (simp add: example_server_def)
  from authorization_gate [of example_env example_server ?r example_decode] ok no(1)
  have "PostDocumentShare example_decode example_server ?r = documentNotFound"
    by auto
  moreover from authorization_gate [of example_env example_server ?d example_decode] no(2) dbs
  have "DeleteDocument example_server ?d = (documentNotFound, example_db)"
    by simp
  ultimately show ?thesis using ok no by simp
qed

text \<open>
  C1 as stated fails for the share handler: a share request without a token whose body
  names no valid permission is refused as a bad request (kind Invalid), not as not found.
\<close>

theorem authorization_gate_counterexample:
  "\<not> authorized (example_request ''POST'' [(''documentID'', ''abc'')] ''admin'' no_claims)
       PermissionShare
   \<and> PostDocumentShare example_decode example_server
        (example_request ''POST'' [(''documentID'', ''abc'')] ''admin'' no_claims)
      = Failure (ErrUnknownPermission ''admin'') StatusBadRequest
   \<and> kind_of (PostDocumentShare example_decode example_server
        (example_request ''POST'' [(''documentID'', ''abc'')] ''admin'' no_claims))
      \<noteq> Some NotFound"
  by (simp add: authorized_def GetClaims_def URLParam_def PostDocumentShare_def kind_of_def
      example_defs Permission_defs Status_defs)

section \<open>Granting permissions through the share handler\<close>

lemma find_not_contained:
  "find (\<lambda>p. \<not> slices_Contains held p) requested = None \<longleftrightarrow> set requested \<subseteq> set held"
  by (auto simp: find_None_iff slices_Contains_def)

lemma PostDocumentShare_authorized_subset:
  assumes "set (Permissions_rq rq) \<subseteq> set (Permissions c)"
  shows "PostDocumentShare_authorized s documentID rq c =
     (case signer s \<lparr>Subject = documentID, Permissions = Permissions_rq rq\<rparr> of
        None \<Rightarrow> Failure ErrSigner StatusInternalServerError
      | Some token \<Rightarrow> ok (ShareResponse token))"
proof -
  from assms have "find (\<lambda>p. \<not> slices_Contains (Permissions c) p) (Permissions_rq rq) = None"
    by (simp add: find_not_contained)
  then show ?thesis
    by (simp add: PostDocumentShare_authorized_def NewToken_def split: option.splits)
qed

lemma PostDocumentShare_authorized_escalation:
  assumes "\<not> set (Permissions_rq rq) \<subseteq> set (Permissions c)"
  shows "\<exists>p. p \<in> set (Permissions_rq rq) \<and> p \<notin> set (Permissions c)
     \<and> PostDocumentShare_authorized s documentID rq c
         = Failure (ErrPermissionDenied p) StatusForbidden"
proof -
  from assms obtain p
    where p: "find (\<lambda>p. \<not> slices_Contains (Permissions c) p) (Permissions_rq rq) = Some p"
    by (cases "find (\<lambda>p. \<not> slices_Contains (Permissions c) p) (Permissions_rq rq)")
      (auto simp: find_not_contained)
  then have "p \<in> set (Permissions_rq rq)" "p \<notin> set (Permissions c)"
    by (auto simp: find_Some_iff slices_Contains_def)
  with p show ?thesis
    by (auto simp: PostDocumentShare_authorized_def)
qed

text \<open>
  C2, as the code has it. Take a share request whose body lists at least one permission,
  all of them valid, from a caller whose claims name the document and hold share. If the
  requested permissions are not all among the caller's, the request fails with Forbidden
  (not NotFound), naming a requested permission the caller lacks. If they are, the server
  signs claims for this document with exactly the requested permissions and answers with
  that token, or with an internal error when the signer fails. So a token is answered if
  and only if the requested permissions are among the caller's and the signer succeeds.
\<close>

theorem share_grants_subset_only:
  assumes "\<not> rejected_body decode r" and "authorized r PermissionShare"
  shows "\<exists>rq. Option.bind (Body r) decode = Some rq
     \<and> (\<not> set (Permissions_rq rq) \<subseteq> set (Permissions (GetClaims r)) \<longrightarrow>
          kind_of (PostDocumentShare decode s r) = Some Forbidden
          \<and> (\<exists>p. p \<in> set (Permissions_rq rq) \<and> p \<notin> set (Permissions (GetClaims r))
                \<and> PostDocumentShare decode s r = Failure (ErrPermissionDenied p) StatusForbidden))
     \<and> (set (Permissions_rq rq) \<subseteq> set (Permissions (GetClaims r)) \<longrightarrow>
          PostDocumentShare decode s r =
            (case signer s \<lparr>Subject = URLParam r ''documentID'',
                            Permissions = Permissions_rq rq\<rparr> of
               None \<Rightarrow> Failure ErrSigner StatusInternalServerError
             | Some token \<Rightarrow> ok (ShareResponse token)))
     \<and> ((\<exists>token. PostDocumentShare decode s r = ok (ShareResponse token)) \<longleftrightarrow>
          set (Permissions_rq rq) \<subseteq> set (Permissions (GetClaims r))
          \<and> signer s \<lparr>Subject = URLParam r ''documentID'',
                       Permissions = Permissions_rq rq\<rparr> \<noteq> None)"
proof -
  from assms(1) obtain rq where rq: "Option.bind (Body r) decode = Some rq"
    "Permissions_rq rq \<noteq> []" "find (\<lambda>p. \<not> IsValid p) (Permissions_rq rq) = None"
    by (rule not_rejected_body)
  let ?c = "GetClaims r" and ?id = "URLParam r ''documentID''"
  have run: "PostDocumentShare decode s r = PostDocumentShare_authorized s ?id rq ?c"
    using PostDocumentShare_gate [OF rq] assms(2) by simp
  have escalation: "\<not> set (Permissions_rq rq) \<subseteq> set (Permissions ?c) \<longrightarrow>
          kind_of (PostDocumentShare decode s r) = Some Forbidden
          \<and> (\<exists>p. p \<in> set (Permissions_rq rq) \<and> p \<notin> set (Permissions ?c)
                \<and> PostDocumentShare decode s r = Failure (ErrPermissionDenied p) StatusForbidden)"
  proof
    assume "\<not> set (Permissions_rq rq) \<subseteq> set (Permissions ?c)"
    from PostDocumentShare_authorized_escalation [OF this, of s ?id]
    obtain p where p: "p \<in> set (Permissions_rq rq)" "p \<notin> set (Permissions ?c)"
      "PostDocumentShare_authorized s ?id rq ?c = Failure (ErrPermissionDenied p) StatusForbidden"
      by blast
    then have "kind_of (PostDocumentShare decode s r) = Some Forbidden"
      by (simp add: run kind_of_def Status_defs)
    with p show "kind_of (PostDocumentShare decode s r) = Some Forbidden
          \<and> (\<exists>p. p \<in> set (Permissions_rq rq) \<and> p \<notin> set (Permissions ?c)
                \<and> PostDocumentShare decode s r = Failure (ErrPermissionDenied p) StatusForbidden)"
      by (auto simp: run)
  qed
  have grant: "set (Permissions_rq rq) \<subseteq> set (Permissions ?c) \<longrightarrow>
          PostDocumentShare decode s r =
            (case signer s \<lparr>Subject = ?id, Permissions = Permissions_rq rq\<rparr> of
               None \<Rightarrow> Failure ErrSigner StatusInternalServerError
             | Some token \<Rightarrow> ok (ShareResponse token))"
    by (simp add: run PostDocumentShare_authorized_subset)
  have iff: "(\<exists>token. PostDocumentShare decode s r = ok (ShareResponse token)) \<longleftrightarrow>
          set (Permissions_rq rq) \<subseteq> set (Permissions ?c)
          \<and> signer s \<lparr>Subject = ?id, Permissions = Permissions_rq rq\<rparr> \<noteq> None"
  proof (cases "set (Permissions_rq rq) \<subseteq> set (Permissions ?c)")
    case True
    with grant show ?thesis
      by (auto simp: ok_def split: option.splits)
  next
    case False
    with escalation show ?thesis
      by (auto simp: ok_def)
  qed
  from rq(1) escalation grant iff show ?thesis by blast
qed

text \<open>
  The holder of share and write for \<open>abc\<close> asks for delete: Forbidden. The same holder
  asks for write: a token for \<open>abc\<close> with write alone.
\<close>

theorem share_grants_subset_only_witness:
  "\<not> rejected_body example_decode
      (example_request ''POST'' [(''documentID'', ''abc'')] ''delete'' writer_claims)
   \<and> authorized (example_request ''POST'' [(''documentID'', ''abc'')] ''delete'' writer_claims)
        PermissionShare
   \<and> PostDocumentShare example_decode example_server
        (example_request ''POST'' [(''documentID'', ''abc'')] ''delete'' writer_claims)
      = Failure (ErrPermissionDenied ''delete'') StatusForbidden
   \<and> PostDocumentShare example_decode example_server
        (example_request ''POST'' [(''documentID'', ''abc'')] ''write'' writer_claims)
      = ok (ShareResponse ''token:abc:write'')"
proof -
  let ?r = "example_request ''POST'' [(''documentID'', ''abc'')] ''delete'' writer_claims"
  let ?w = "example_request ''POST'' [(''documentID'', ''abc'')] ''write'' writer_claims"
  have pre: "\<not> rejected_body example_decode ?r" "authorized ?r PermissionShare"
    "\<not> rejected_body example_decode ?w" "authorized ?w PermissionShare"
    by (simp_all add: rejected_body_def authorized_def GetClaims_def URLParam_def
        example_defs Permission_defs)
  have rq: "Option.bind (Body ?r) example_decode = Some \<lparr>Permissions_rq = [''delete'']\<rparr>"
    "Option.bind (Body ?w) example_decode = Some \<lparr>Permissions_rq = [''write'']\<rparr>"
    by (simp_all add: example_defs)
  have perms: "Permissions (GetClaims ?r) = [''share'', ''write'']"
    "Permissions (GetClaims ?w) = [''share'', ''write'']"
    "URLParam ?w ''documentID'' = ''abc''"
    by (simp_all add: GetClaims_def URLParam_def example_defs Permission_defs)
  from share_grants_subset_only [OF pre(1,2), of example_server] rq(1) perms(1)
  have "PostDocumentShare example_decode example_server ?r
      = Failure (ErrPermissionDenied ''delete'') StatusForbidden"
    by auto
  moreover
  from share_grants_subset_only [OF pre(3,4), of example_server] rq(2) perms(2,3)
  have "PostDocumentShare example_decode example_server ?w = ok (ShareResponse ''token:abc:write'')"
    by (auto simp: example_server_def example_signer_def)
  ultimately show ?thesis using pre by simp
qed

text \<open>
  C2 as stated fails for the empty request: the empty set is among any caller's
  permissions, yet the owner's request for no permission is refused as a bad request
  and no token is issued.
\<close>

theorem share_grants_subset_only_counterexample:
  "authorized (example_request ''POST'' [(''documentID'', ''abc'')] [] owner_claims)
     PermissionShare
   \<and> Option.bind (Body (example_request ''POST'' [(''documentID'', ''abc'')] [] owner_claims))
        example_decode = Some \<lparr>Permissions_rq = []\<rparr>
   \<and> set (Permissions_rq \<lparr>Permissions_rq = []\<rparr>) \<subseteq> set (Permissions owner_claims)
   \<and> PostDocumentShare example_decode example_server
        (example_request ''POST'' [(''documentID'', ''abc'')] [] owner_claims)
      = Failure ErrNoPermissions StatusBadRequest"
  by (simp add: authorized_def GetClaims_def URLParam_def PostDocumentShare_def
      example_defs Permission_defs)

section \<open>Properties of the rate limiter\<close>

lemma read_routes_methods:
  "list_all (\<lambda>(m, p, h). read_only h \<longrightarrow> m = MethodGet \<or> m = MethodHead) (Routes @ Routes_v2)"
  by (simp add: Routes_def Routes_v2_def)

lemma write_routes_methods:
  "list_all (\<lambda>(m, p, h). \<not> read_only h \<longrightarrow> m = MethodPost \<or> m = MethodPatch \<or> m = MethodDelete)
     (Routes @ Routes_v2)"
  by (simp add: Routes_def Routes_v2_def)

lemma read_method_not_limited:
  "Method r = MethodGet \<or> Method r = MethodHead \<Longrightarrow> \<not> rateLimited_method r"
  by (auto simp: rateLimited_method_def Method_defs)

lemma limiter_not_installed:
  "RateLimit c = None \<or> (\<exists>rl. RateLimit c = Some rl \<and> (Requests rl \<le> 0 \<or> Duration rl \<le> 0))
     \<Longrightarrow> \<not> rateLimiter_installed c"
  by (auto simp: rateLimiter_installed_def)

text \<open>
  C6. The middleware hands a request to the limiter only when its method is POST, PATCH
  or DELETE. Every route of a read-only handler is registered under GET or HEAD, in both
  revisions, so no read-only endpoint is ever limited: such a request gets the response
  of the rest of the chain. Every route of a creating, updating, deleting or sharing
  handler is registered under POST, PATCH or DELETE. When the rate limit is unset, or
  its request budget or its window is zero (or less), no limiter is installed: every request,
  whatever the limiter would decide, gets the response of the rest of the chain.
\<close>

theorem rate_limiter_gates_mutations_only:
  "(passes_limiter c r \<longrightarrow>
      Method r = MethodPost \<or> Method r = MethodPatch \<or> Method r = MethodDelete)
   \<and> (\<forall>(m, p, h) \<in> set (Routes @ Routes_v2). read_only h \<longrightarrow> m = MethodGet \<or> m = MethodHead)
   \<and> (\<forall>(m, p, h) \<in> set (Routes @ Routes_v2).
        \<not> read_only h \<longrightarrow> m = MethodPost \<or> m = MethodPatch \<or> m = MethodDelete)
   \<and> (Method r = MethodGet \<or> Method r = MethodHead \<longrightarrow>
        \<not> passes_limiter c r \<and> rateLimit_middleware c over_limit next r = next r)
   \<and> (RateLimit c = None \<or> (\<exists>rl. RateLimit c = Some rl \<and> (Requests rl \<le> 0 \<or> Duration rl \<le> 0)) \<longrightarrow>
        \<not> passes_limiter c r \<and> rateLimit_middleware c over_limit next r = next r)"
proof -
  have methods: "passes_limiter c r \<longrightarrow>
      Method r = MethodPost \<or> Method r = MethodPatch \<or> Method r = MethodDelete"
    by (simp add: passes_limiter_def rateLimited_method_def)
  have reads: "\<forall>(m, p, h) \<in> set (Routes @ Routes_v2). read_only h \<longrightarrow> m = MethodGet \<or> m = MethodHead"
    using read_routes_methods unfolding list_all_iff by blast
  have writes: "\<forall>(m, p, h) \<in> set (Routes @ Routes_v2).
        \<not> read_only h \<longrightarrow> m = MethodPost \<or> m = MethodPatch \<or> m = MethodDelete"
    using write_routes_methods unfolding list_all_iff by blast
  have bypass: "Method r = MethodGet \<or> Method r = MethodHead \<longrightarrow>
        \<not> passes_limiter c r \<and> rateLimit_middleware c over_limit next r = next r"
    using read_method_not_limited [of r]
    by (simp add: passes_limiter_def rateLimit_middleware_def)
  have disabled: "RateLimit c = None
        \<or> (\<exists>rl. RateLimit c = Some rl \<and> (Requests rl \<le> 0 \<or> Duration rl \<le> 0)) \<longrightarrow>
        \<not> passes_limiter c r \<and> rateLimit_middleware c over_limit next r = next r"
    using limiter_not_installed [of c]
    by (simp add: passes_limiter_def rateLimit_middleware_def)
  from methods reads writes bypass disabled show ?thesis by blast
qed

text \<open>
  With a budget of two requests per minute a GET passes although the limiter is over its
  limit, and a POST is rejected; with a window of zero the POST passes as well.
\<close>

theorem rate_limiter_gates_mutations_only_witness:
  "rateLimit_middleware
      \<lparr>Debug = False, MaxDocumentSize = 0, RateLimit = Some \<lparr>Requests = 2, Duration = 60\<rparr>\<rparr>
      (\<lambda>r. True) (\<lambda>r. Nothing) (example_request ''GET'' [(''documentID'', ''abc'')] [] no_claims)
     = Nothing
   \<and> rateLimit_middleware
      \<lparr>Debug = False, MaxDocumentSize = 0, RateLimit = Some \<lparr>Requests = 2, Duration = 60\<rparr>\<rparr>
      (\<lambda>r. True) (\<lambda>r. Nothing) (example_request ''POST'' [] ''text'' no_claims)
     = rateLimit
   \<and> rateLimit_middleware
      \<lparr>Debug = False, MaxDocumentSize = 0, RateLimit = Some \<lparr>Requests = 2, Duration = 0\<rparr>\<rparr>
      (\<lambda>r. True) (\<lambda>r. Nothing) (example_request ''POST'' [] ''text'' no_claims)
     = Nothing
   \<and> (MethodDelete, ''/documents/{documentID}/versions/{version}/'', H_DeleteDocumentVersion)
       \<in> set (Routes @ Routes_v2)
   \<and> (MethodGet, ''/documents/{documentID}/'', H_GetDocument) \<in> set (Routes @ Routes_v2)"
proof -
  let ?on = "\<lparr>Debug = False, MaxDocumentSize = 0, RateLimit = Some \<lparr>Requests = 2, Duration = 60\<rparr>\<rparr>"
  let ?off = "\<lparr>Debug = False, MaxDocumentSize = 0, RateLimit = Some \<lparr>Requests = 2, Duration = 0\<rparr>\<rparr>"
  let ?get = "example_request ''GET'' [(''documentID'', ''abc'')] [] no_claims"
  let ?post = "example_request ''POST'' [] ''text'' no_claims"
  have get: "Method ?get = MethodGet"
    by (simp add: example_request_def MethodGet_def)
  have off: "\<exists>rl. RateLimit ?off = Some rl \<and> (Requests rl \<le> 0 \<or> Duration rl \<le> 0)"
    by simp
  have routes: "(MethodDelete, ''/documents/{documentID}/versions/{version}/'', H_DeleteDocumentVersion)
       \<in> set (Routes @ Routes_v2)"
    "(MethodGet, ''/documents/{documentID}/'', H_GetDocument) \<in> set (Routes @ Routes_v2)"
    by (simp_all add: Routes_def)
  have post: "rateLimit_middleware ?on (\<lambda>r. True) (\<lambda>r. Nothing) ?post = rateLimit"
    by (simp add: rateLimit_middleware_def rateLimiter_installed_def rateLimited_method_def
        example_request_def Method_defs)
  from rate_limiter_gates_mutations_only [of ?on ?get "\<lambda>r. True" "\<lambda>r. Nothing"] get
  have "rateLimit_middleware ?on (\<lambda>r. True) (\<lambda>r. Nothing) ?get = Nothing"
    by blast
  moreover
  from rate_limiter_gates_mutations_only [of ?off ?post "\<lambda>r. True" "\<lambda>r. Nothing"] off
  have "rateLimit_middleware ?off (\<lambda>r. True) (\<lambda>r. Nothing) ?post = Nothing"
    by blast
  ultimately show ?thesis using post routes by simp
qed

section \<open>The version parameter\<close>

lemma ParseInt_malformed: "\<not> well_formed_integer v \<Longrightarrow> ParseInt v = None"
  by (auto simp: well_formed_integer_def ParseInt_def Let_def split: list.splits)

lemma parseDocumentVersion_malformed:
  "ParseInt (URLParam r ''version'') = None \<Longrightarrow>
     parseDocumentVersion r = (Some documentNotFound, [], - 1)"
  by (simp add: parseDocumentVersion_def Let_def)

lemma parseDocumentVersion_v2_malformed:
  "URLParam r ''version'' \<noteq> [] \<Longrightarrow> ParseInt (URLParam r ''version'') = None \<Longrightarrow>
     parseDocumentVersion_v2 r = (Some documentNotFound, - 1)"
  by (simp add: parseDocumentVersion_v2_def Let_def)

text \<open>
  C8, as the code has it. A request whose version parameter is present and is not a
  well-formed integer (an optional sign, then decimal digits) is answered with the
  not-found error, kind NotFound, whatever the document's identifier: by
  \<^verbatim>\<open>parseDocumentVersion\<close> and the handlers of a single version in \<^verbatim>\<open>gobin/routes.go\<close>,
  and by \<^verbatim>\<open>parseDocumentVersion\<close>, the read helper and the delete handler of the later
  revision. The store is left as it was.
\<close>

theorem malformed_version_not_found:
  assumes "URLParam r ''version'' \<noteq> []" and "\<not> well_formed_integer (URLParam r ''version'')"
  shows "fst (parseDocumentVersion r) = Some documentNotFound
     \<and> GetDocumentVersion s r = documentNotFound
     \<and> DeleteDocumentVersion s r = (documentNotFound, db s)
     \<and> parseDocumentVersion_v2 r = (Some documentNotFound, - 1)
     \<and> (URLParam r ''documentID'' \<noteq> [] \<longrightarrow> getDocument_v2 s r = (Some documentNotFound, None))
     \<and> DeleteDocument_v2 s r = ([documentNotFound], db s)
     \<and> kind_of documentNotFound = Some NotFound"
proof -
  from assms(2) have none: "ParseInt (URLParam r ''version'') = None"
    by (rule ParseInt_malformed)
  note v1 = parseDocumentVersion_malformed [OF none]
  note v2 = parseDocumentVersion_v2_malformed [OF assms(1) none]
  have "GetDocumentVersion s r = documentNotFound"
    by (simp add: GetDocumentVersion_def v1 written_def)
  moreover have "DeleteDocumentVersion s r = (documentNotFound, db s)"
    by (simp add: DeleteDocumentVersion_def v1 written_def)
  moreover have "URLParam r ''documentID'' \<noteq> [] \<longrightarrow>
      getDocument_v2 s r = (Some documentNotFound, None)"
    by (simp add: getDocument_v2_def v2)
  moreover have "DeleteDocument_v2 s r = ([documentNotFound], db s)"
    by (simp add: DeleteDocument_v2_def v2)
  ultimately show ?thesis
    using v1 v2 kind_of_documentNotFound by simp
qed

theorem malformed_version_not_found_witness:
  "URLParam (example_request ''GET'' [(''documentID'', ''abc''), (''version'', ''latest'')] []
       no_claims) ''version'' \<noteq> []
   \<and> \<not> well_formed_integer ''latest''
   \<and> GetDocumentVersion example_server
       (example_request ''GET'' [(''documentID'', ''abc''), (''version'', ''latest'')] [] no_claims)
     = Failure ErrDocumentNotFound StatusNotFound"
proof -
  let ?r = "example_request ''GET'' [(''documentID'', ''abc''), (''version'', ''latest'')] []
       no_claims"
  have v: "URLParam ?r ''version'' = ''latest''"
    by (simp add: URLParam_def example_request_def)
  have bad: "\<not> well_formed_integer ''latest''"
    by (simp add: well_formed_integer_def is_digit_def)
  from malformed_version_not_found [of ?r example_server] v bad
  have "GetDocumentVersion example_server ?r = documentNotFound"
    by simp
  with v bad show ?thesis by (simp add: documentNotFound_def)
qed

text \<open>
  C8 as stated fails: the version \<open>latest\<close> is no integer, and the answer is of kind
  NotFound (status 404), not Invalid (status 400).
\<close>

theorem malformed_version_counterexample:
  "\<not> well_formed_integer ''latest''
   \<and> kind_of (GetDocumentVersion example_server
       (example_request ''GET'' [(''documentID'', ''abc''), (''version'', ''latest'')] [] no_claims))
     \<noteq> Some Invalid
   \<and> kind_of (written (fst (getDocument_v2 example_server
       (example_request ''GET'' [(''documentID'', ''abc''), (''version'', ''latest'')] []
          no_claims))))
     \<noteq> Some Invalid"
  by (simp add: well_formed_integer_def is_digit_def GetDocumentVersion_def getDocument_v2_def
      parseDocumentVersion_def parseDocumentVersion_v2_def ParseInt_def URLParam_def
      written_def kind_of_def documentNotFound_def example_request_def Status_defs)

section \<open>Version 0\<close>

lemma parseDocumentVersion_v2_absent:
  "URLParam r ''version'' = [] \<Longrightarrow> parseDocumentVersion_v2 r = (None, 0)"
  by (simp add: parseDocumentVersion_v2_def)

lemma getDocument_v2_zero:
  assumes "snd (parseDocumentVersion_v2 r) = 0" and "URLParam r ''documentID'' \<noteq> []"
  shows "snd (getDocument_v2 s r) =
     (case DB_GetDocument (db s) (URLParam r ''documentID'') of
        Inl err \<Rightarrow> None | Inr document \<Rightarrow> Some document)"
proof -
  obtain w where "parseDocumentVersion_v2 r = (w, 0)"
    using assms(1) by (cases "parseDocumentVersion_v2 r") simp
  with assms(2) show ?thesis
    by (simp add: getDocument_v2_def split: sum.splits)
qed

lemma rows_of_delete_all: "rows_of (filter (\<lambda>d. ID d \<noteq> documentID) table) documentID = []"
  by (induction table) (auto simp: rows_of_def)

lemma DeleteDocument_v2_zero:
  assumes "snd (parseDocumentVersion_v2 r) = 0" and "authorized r PermissionDelete"
  shows "snd (DeleteDocument_v2 s r) = run_op (DeleteAll (URLParam r ''documentID'')) (db s)"
proof -
  obtain w where "parseDocumentVersion_v2 r = (w, 0)"
    using assms(1) by (cases "parseDocumentVersion_v2 r") simp
  with assms(2) show ?thesis
    by (simp add: DeleteDocument_v2_def authorized_def slices_Contains_def
        DB_GetVersionCount_def split: sum.splits)
qed

lemma run_op_delete_all_rows:
  "rows_of (run_op (DeleteAll documentID) table) documentID = []"
  by (simp add: DB_DeleteDocument_def rows_of_delete_all)

text \<open>
  C5. In the later revision an absent version segment parses to 0. A read whose version
  is 0 returns what the store's read of the latest version returns, and a delete whose
  version is 0, by a caller who may delete, leaves the table that deleting all versions
  leaves, with no row of the document; neither looks up the row with version 0. The
  Version Clock hands out the wall clock's reading, so whenever the clock reads a time
  after the epoch the version given to a created or updated document is not 0.
\<close>

theorem version_zero_means_latest:
  "(URLParam r ''version'' = [] \<longrightarrow> parseDocumentVersion_v2 r = (None, 0))
   \<and> (snd (parseDocumentVersion_v2 r) = 0 \<and> URLParam r ''documentID'' \<noteq> [] \<longrightarrow>
        snd (getDocument_v2 s r) =
          (case DB_GetDocument (db s) (URLParam r ''documentID'') of
             Inl err \<Rightarrow> None | Inr document \<Rightarrow> Some document))
   \<and> (snd (parseDocumentVersion_v2 r) = 0 \<and> authorized r PermissionDelete \<longrightarrow>
        snd (DeleteDocument_v2 s r) = run_op (DeleteAll (URLParam r ''documentID'')) (db s)
        \<and> rows_of (snd (DeleteDocument_v2 s r)) (URLParam r ''documentID'') = [])
   \<and> (0 < t \<longrightarrow>
        next_version t \<noteq> 0
        \<and> (\<forall>doc table'. DB_CreateDocument table new t content language = Inr (doc, table')
              \<longrightarrow> Version doc \<noteq> 0)
        \<and> (\<forall>doc table'. DB_UpdateDocument table documentID t content language = Inr (doc, table')
              \<longrightarrow> Version doc \<noteq> 0))"
proof -
  have absent: "URLParam r ''version'' = [] \<longrightarrow> parseDocumentVersion_v2 r = (None, 0)"
    by (simp add: parseDocumentVersion_v2_absent)
  have read: "snd (parseDocumentVersion_v2 r) = 0 \<and> URLParam r ''documentID'' \<noteq> [] \<longrightarrow>
        snd (getDocument_v2 s r) =
          (case DB_GetDocument (db s) (URLParam r ''documentID'') of
             Inl err \<Rightarrow> None | Inr document \<Rightarrow> Some document)"
    using getDocument_v2_zero by blast
  have delete: "snd (parseDocumentVersion_v2 r) = 0 \<and> authorized r PermissionDelete \<longrightarrow>
        snd (DeleteDocument_v2 s r) = run_op (DeleteAll (URLParam r ''documentID'')) (db s)
        \<and> rows_of (snd (DeleteDocument_v2 s r)) (URLParam r ''documentID'') = []"
    using DeleteDocument_v2_zero [of r s] run_op_delete_all_rows [of "URLParam r ''documentID''" "db s"]
    by simp
  have stamp: "0 < t \<longrightarrow>
        next_version t \<noteq> 0
        \<and> (\<forall>doc table'. DB_CreateDocument table new t content language = Inr (doc, table')
              \<longrightarrow> Version doc \<noteq> 0)
        \<and> (\<forall>doc table'. DB_UpdateDocument table documentID t content language = Inr (doc, table')
              \<longrightarrow> Version doc \<noteq> 0)"
    by (auto simp: next_version_def DB_CreateDocument_def DB_UpdateDocument_def Let_def
        split: sum.splits if_splits)
  from absent read delete stamp show ?thesis by blast
qed

text \<open>
  The document \<open>abc\<close> has a row with version 0 and a later row. A read of version \<open>0\<close>
  returns the later row; the owner's delete of version \<open>0\<close> removes both; a document
  created when the clock reads 1700000200 gets that version.
\<close>

theorem version_zero_means_latest_witness:
  "snd (parseDocumentVersion_v2
          (example_request ''GET'' [(''documentID'', ''abc''), (''version'', ''0'')] [] no_claims)) = 0
   \<and> snd (getDocument_v2 (example_server\<lparr>db := example_db_zero\<rparr>)
          (example_request ''GET'' [(''documentID'', ''abc''), (''version'', ''0'')] [] no_claims))
     = Some \<lparr>ID = ''abc'', Version = 1700000000, Content = ''hello'', Language = ''go''\<rparr>
   \<and> authorized
        (example_request ''DELETE'' [(''documentID'', ''abc''), (''version'', ''0'')] [] owner_claims)
        PermissionDelete
   \<and> snd (DeleteDocument_v2 (example_server\<lparr>db := example_db_zero\<rparr>)
          (example_request ''DELETE'' [(''documentID'', ''abc''), (''version'', ''0'')] []
             owner_claims))
     = []
   \<and> (0::int) < 1700000200
   \<and> next_version 1700000200 \<noteq> 0"
proof -
  let ?get = "example_request ''GET'' [(''documentID'', ''abc''), (''version'', ''0'')] [] no_claims"
  let ?del = "example_request ''DELETE'' [(''documentID'', ''abc''), (''version'', ''0'')] []
     owner_claims"
  let ?s = "example_server\<lparr>db := example_db_zero\<rparr>"
  have zero: "snd (parseDocumentVersion_v2 ?get) = 0" "snd (parseDocumentVersion_v2 ?del) = 0"
    by (simp_all add: parseDocumentVersion_v2_def ParseInt_def URLParam_def is_digit_def
        digits_value_def example_request_def)
  have doc: "URLParam ?get ''documentID'' = ''abc''" "URLParam ?del ''documentID'' = ''abc''"
    by (simp_all add: URLParam_def example_request_def)
  have auth: "authorized ?del PermissionDelete"
    by (simp add: authorized_def GetClaims_def URLParam_def example_defs Permission_defs)
  have latest: "DB_GetDocument (db ?s) ''abc''
      = Inr \<lparr>ID = ''abc'', Version = 1700000000, Content = ''hello'', Language = ''go''\<rparr>"
    by (simp add: DB_GetDocument_def rows_of_def latest_def example_db_zero_def)
  have all: "run_op (DeleteAll ''abc'') (db ?s) = []"
    by (simp add: DB_DeleteDocument_def rows_of_def example_db_zero_def)
  have clock: "(0::int) < 1700000200"
    by simp
  from version_zero_means_latest [of ?get ?s 1700000200] zero(1) doc(1) latest
  have "snd (getDocument_v2 ?s ?get)
      = Some \<lparr>ID = ''abc'', Version = 1700000000, Content = ''hello'', Language = ''go''\<rparr>"
    by simp
  moreover
  from version_zero_means_latest [of ?del ?s 1700000200] zero(2) doc(2) auth all
  have "snd (DeleteDocument_v2 ?s ?del) = []"
    by simp
  moreover
  from version_zero_means_latest [of ?get ?s 1700000200] clock
  have "next_version 1700000200 \<noteq> 0"
    by blast
  ultimately show ?thesis using zero auth clock by simp
qed

section \<open>Properties of the version label\<close>

lemma label_by_component:
  "fst (FormatDocumentVersion z now v) = version_label (time_Unix z v) now"
  by (simp add: FormatDocumentVersion_def version_label_def components_def Let_def)

lemma label_new_year:
  "fst (FormatDocumentVersion UTC (time_Unix UTC 1672531200) 1672531199) = ''1 years ago''"
  by code_simp

lemma label_one_second:
  "fst (FormatDocumentVersion UTC (time_Unix UTC 1672531201) 1672531200) = ''1 seconds ago''"
  by code_simp

lemma label_not_of_duration:
  "\<not> (\<exists>f. \<forall>t v. fst (FormatDocumentVersion UTC (time_Unix UTC t) v) = f (t - v))"
proof
  assume "\<exists>f. \<forall>t v. fst (FormatDocumentVersion UTC (time_Unix UTC t) v) = f (t - v)"
  then obtain f :: "int \<Rightarrow> string"
    where f: "\<And>t v. fst (FormatDocumentVersion UTC (time_Unix UTC t) v) = f (t - v)"
    by blast
  from f [of 1672531200 1672531199] label_new_year have "f 1 = ''1 years ago''"
    by simp
  moreover from f [of 1672531201 1672531200] label_one_second have "f 1 = ''1 seconds ago''"
    by simp
  ultimately show False by simp
qed

text \<open>
  C10. For every version and every current time, in every time zone, the label of
  \<^verbatim>\<open>FormatDocumentVersion\<close> is the one decided by the first of year, month, day, hour,
  minute in which the version's component is strictly below the current one, showing the
  difference of that component alone, and the difference of the seconds when there is no
  such component. It is no function of the time elapsed between the two: in UTC, one
  second before the new year is ``1 years ago'' at the new year, and one second within
  the same minute is ``1 seconds ago''.
\<close>

theorem version_label_by_component:
  "fst (FormatDocumentVersion z now v) = version_label (time_Unix z v) now
   \<and> \<not> (\<exists>f. \<forall>t v. fst (FormatDocumentVersion UTC (time_Unix UTC t) v) = f (t - v))"
  using label_by_component label_not_of_duration by blast

text \<open>
  A version of 14 November 2023, 22:14:10, read forty seconds earlier, at 22:13:30: no
  component from year to minute is below, so the label is the difference of the seconds,
  ``20 seconds ago''.
\<close>

theorem version_label_by_component_witness:
  "time_Unix UTC 1700000010
     = \<lparr>Year = 2023, Month = 11, Day = 14, Hour = 22, Minute = 13, Second = 30\<rparr>
   \<and> version_label (time_Unix UTC 1700000050) (time_Unix UTC 1700000010) = ''20 seconds ago''
   \<and> fst (FormatDocumentVersion UTC (time_Unix UTC 1700000010) 1700000050) = ''20 seconds ago''"
proof -
  have now: "time_Unix UTC 1700000010
     = \<lparr>Year = 2023, Month = 11, Day = 14, Hour = 22, Minute = 13, Second = 30\<rparr>"
    by code_simp
  have label: "version_label (time_Unix UTC 1700000050) (time_Unix UTC 1700000010)
      = ''20 seconds ago''"
    by code_simp
  from version_label_by_component [of UTC "time_Unix UTC 1700000010" 1700000050] now label
  show ?thesis by simp
qed

section \<open>Properties of the document store\<close>

subsection \<open>The latest row\<close>

lemma latest_mem: "latest d ds \<in> set (d # ds)"
  unfolding latest_def by (induction ds arbitrary: d) auto

lemma latest_ge_start: "Version d \<le> Version (latest d ds)"
  unfolding latest_def
proof (induction ds arbitrary: d)
  case Nil
  show ?case by simp
next
  case (Cons x xs)
  show ?case
  proof (cases "Version d \<le> Version x")
    case True
    with Cons [of x] show ?thesis by simp
  next
    case False
    with Cons [of d] show ?thesis by simp
  qed
qed

lemma latest_max: "x \<in> set (d # ds) \<Longrightarrow> Version x \<le> Version (latest d ds)"
proof (induction ds arbitrary: d)
  case Nil
  then show ?case by (simp add: latest_def)
next
  case (Cons y ys)
  have step: "latest d (y # ys) = latest (if Version d \<le> Version y then y else d) ys"
    by (simp add: latest_def)
  let ?b = "if Version d \<le> Version y then y else d"
  have b: "Version d \<le> Version ?b" "Version y \<le> Version ?b"
    by auto
  from Cons.prems consider "x = d \<or> x = y" | "x \<in> set ys" by auto
  then show ?case
  proof cases
    case 1
    with b have "Version x \<le> Version ?b" by blast
    from order_trans [OF this latest_ge_start] show ?thesis unfolding step .
  next
    case 2
    then have "x \<in> set (?b # ys)" by simp
    from Cons.IH [OF this] show ?thesis unfolding step .
  qed
qed

lemma primary_key_inj:
  "primary_key table \<Longrightarrow> a \<in> set table \<Longrightarrow> b \<in> set table \<Longrightarrow> key a = key b \<Longrightarrow> a = b"
  unfolding primary_key_def by (auto simp: distinct_map dest: inj_onD)

lemma GetDocument_rows:
  "DB_GetDocument table documentID = Inr d \<Longrightarrow>
     d \<in> set table \<and> ID d = documentID
     \<and> (\<forall>x \<in> set table. ID x = documentID \<longrightarrow> Version x \<le> Version d)"
proof -
  assume get: "DB_GetDocument table documentID = Inr d"
  then obtain r rs where rows: "rows_of table documentID = r # rs" and d: "d = latest r rs"
    by (auto simp: DB_GetDocument_def split: list.splits)
  have "d \<in> set (rows_of table documentID)"
    using latest_mem [of r rs] rows d by simp
  then have mem: "d \<in> set table" "ID d = documentID"
    by (auto simp: rows_of_def)
  have "\<forall>x \<in> set table. ID x = documentID \<longrightarrow> Version x \<le> Version d"
  proof (intro ballI impI)
    fix x assume "x \<in> set table" "ID x = documentID"
    then have "x \<in> set (rows_of table documentID)" by (simp add: rows_of_def)
    then have "x \<in> set (r # rs)" using rows by simp
    then show "Version x \<le> Version d" using latest_max d by blast
  qed
  with mem show ?thesis by blast
qed

lemma GetDocument_is_latest:
  assumes "primary_key table" "d \<in> set table" "ID d = documentID"
    "\<forall>x \<in> set table. ID x = documentID \<longrightarrow> Version x \<le> Version d"
  shows "DB_GetDocument table documentID = Inr d"
proof -
  from assms(2,3) have "d \<in> set (rows_of table documentID)"
    by (simp add: rows_of_def)
  then obtain r rs where rows: "rows_of table documentID = r # rs"
    by (cases "rows_of table documentID") auto
  then have get: "DB_GetDocument table documentID = Inr (latest r rs)"
    by (simp add: DB_GetDocument_def)
  from GetDocument_rows [OF get]
  have l: "latest r rs \<in> set table" "ID (latest r rs) = documentID"
    "Version d \<le> Version (latest r rs)"
    using assms(2,3) by auto
  with assms(4) have "Version (latest r rs) = Version d" by fastforce
  with l(2) assms(3) have "key (latest r rs) = key d" by (simp add: key_def)
  from primary_key_inj [OF assms(1) l(1) assms(2) this] get show ?thesis by simp
qed

subsection \<open>Rows are appended, never changed\<close>

lemma primary_key_insert_row:
  "primary_key table \<Longrightarrow> insert_row table d = Inr table' \<Longrightarrow>
     table' = table @ [d] \<and> primary_key table'"
  by (auto simp: insert_row_def primary_key_def split: if_splits)

lemma primary_key_filter: "primary_key table \<Longrightarrow> primary_key (filter P table)"
  by (simp add: primary_key_def distinct_map_filter)

lemma run_op_primary_key: "primary_key table \<Longrightarrow> primary_key (run_op op table)"
proof (cases op)
  case (Create newID t content language)
  assume "primary_key table"
  with Create show ?thesis
    by (auto simp: DB_CreateDocument_def Let_def split: sum.splits
        dest: primary_key_insert_row)
next
  case (Update documentID t content language)
  assume "primary_key table"
  with Update show ?thesis
    by (auto simp: DB_UpdateDocument_def Let_def split: sum.splits
        dest: primary_key_insert_row)
next
  case (DeleteAll documentID)
  assume "primary_key table"
  with DeleteAll show ?thesis
    by (simp add: DB_DeleteDocument_def primary_key_filter)
next
  case (DeleteVersion documentID version)
  assume "primary_key table"
  with DeleteVersion show ?thesis
    by (simp add: DB_DeleteDocumentByVersion_def primary_key_filter)
qed simp_all

lemma run_op_appends:
  "\<not> is_delete op \<Longrightarrow> \<exists>new. run_op op table = table @ new \<and> length new \<le> 1"
proof (cases op)
  case (Create newID t content language)
  then show ?thesis
    by (auto simp: DB_CreateDocument_def insert_row_def Let_def split: sum.splits)
next
  case (Update documentID t content language)
  then show ?thesis
    by (auto simp: DB_UpdateDocument_def insert_row_def Let_def split: sum.splits)
qed auto

lemma find_append_Some: "find P xs = Some x \<Longrightarrow> find P (xs @ ys) = Some x"
  by (induction xs) auto

lemma GetDocumentVersion_append:
  "DB_GetDocumentVersion table documentID version = Inr d \<Longrightarrow>
     DB_GetDocumentVersion (table @ new) documentID version = Inr d"
  by (auto simp: DB_GetDocumentVersion_def find_append_Some split: option.splits)

lemma versions_distinct:
  assumes "primary_key table"
  shows "distinct (map Version (rows_of table documentID))"
proof -
  have "distinct (rows_of table documentID)"
    using assms by (simp add: primary_key_def rows_of_def distinct_map)
  moreover have "inj_on Version (set (rows_of table documentID))"
  proof (rule inj_onI)
    fix a b
    assume "a \<in> set (rows_of table documentID)" "b \<in> set (rows_of table documentID)"
      "Version a = Version b"
    then have "a \<in> set table" "b \<in> set table" "key a = key b"
      by (auto simp: rows_of_def key_def)
    with assms show "a = b" by (rule primary_key_inj)
  qed
  ultimately show ?thesis by (simp add: distinct_map)
qed

lemma versions_strictly_ascending:
  assumes "primary_key table" "DB_GetDocumentVersions table documentID withContent = Inr ds"
  shows "sorted_wrt (<) (map Version ds)"
proof -
  let ?rows = "sort_key Version (rows_of table documentID)"
  from assms(2) have "map Version ds = map Version ?rows"
    by (auto simp: DB_GetDocumentVersions_def)
  moreover have "sorted (map Version ?rows)"
    by (rule sorted_sort_key)
  moreover have "distinct (map Version ?rows)"
    using versions_distinct [OF assms(1), of documentID]
    by (simp add: distinct_map)
  ultimately show ?thesis by (simp add: strict_sorted_iff)
qed

text \<open>
  C3. Under the primary key (id, version) no two stored rows share an identifier and a
  version, every operation of the store keeps it so, and the versions of one document,
  listed, are strictly ascending: a total order by timestamp. Every operation other than
  the two deletes leaves a table that is the old table followed by at most one new row:
  create and update append, the reads change nothing, and every row read by identifier
  and version before the operation is read unchanged after it.
\<close>

theorem versions_append_only:
  assumes "primary_key table"
  shows "primary_key (run_op op table)
     \<and> (\<forall>a \<in> set table. \<forall>b \<in> set table. key a = key b \<longrightarrow> a = b)
     \<and> (\<forall>ds. DB_GetDocumentVersions table documentID withContent = Inr ds \<longrightarrow>
           sorted_wrt (<) (map Version ds))
     \<and> (\<not> is_delete op \<longrightarrow>
          (\<exists>new. run_op op table = table @ new \<and> length new \<le> 1)
          \<and> (\<forall>i v d. DB_GetDocumentVersion table i v = Inr d \<longrightarrow>
                DB_GetDocumentVersion (run_op op table) i v = Inr d))"
proof -
  have unique: "\<forall>a \<in> set table. \<forall>b \<in> set table. key a = key b \<longrightarrow> a = b"
    using primary_key_inj [OF assms] by blast
  have ordered: "\<forall>ds. DB_GetDocumentVersions table documentID withContent = Inr ds \<longrightarrow>
           sorted_wrt (<) (map Version ds)"
    using versions_strictly_ascending [OF assms] by blast
  have append: "\<not> is_delete op \<longrightarrow>
          (\<exists>new. run_op op table = table @ new \<and> length new \<le> 1)
          \<and> (\<forall>i v d. DB_GetDocumentVersion table i v = Inr d \<longrightarrow>
                DB_GetDocumentVersion (run_op op table) i v = Inr d)"
  proof
    assume "\<not> is_delete op"
    then obtain new where new: "run_op op table = table @ new" "length new \<le> 1"
      using run_op_appends by blast
    then have "\<forall>i v d. DB_GetDocumentVersion table i v = Inr d \<longrightarrow>
                DB_GetDocumentVersion (run_op op table) i v = Inr d"
      by (simp add: GetDocumentVersion_append)
    with new show "(\<exists>new. run_op op table = table @ new \<and> length new \<le> 1)
          \<and> (\<forall>i v d. DB_GetDocumentVersion table i v = Inr d \<longrightarrow>
                DB_GetDocumentVersion (run_op op table) i v = Inr d)"
      by blast
  qed
  from run_op_primary_key [OF assms, of op] unique ordered append show ?thesis by blast
qed

text \<open>
  An update of \<open>abc\<close> appends one row to the example table; the first version of
  \<open>abc\<close> reads as before.
\<close>

theorem versions_append_only_witness:
  "primary_key example_db
   \<and> \<not> is_delete (Update ''abc'' 1700000200 ''again'' ''go'')
   \<and> run_op (Update ''abc'' 1700000200 ''again'' ''go'') example_db
     = example_db @ [\<lparr>ID = ''abc'', Version = 1700000200, Content = ''again'', Language = ''go''\<rparr>]
   \<and> DB_GetDocumentVersion (run_op (Update ''abc'' 1700000200 ''again'' ''go'') example_db)
       ''abc'' 1700000000
     = Inr \<lparr>ID = ''abc'', Version = 1700000000, Content = ''hello'', Language = ''go''\<rparr>"
proof -
  let ?op = "Update ''abc'' 1700000200 ''again'' ''go''"
  have pk: "primary_key example_db"
    by (simp add: primary_key_def key_def example_db_def)
  have nd: "\<not> is_delete ?op"
    by simp
  have run: "run_op ?op example_db
     = example_db @ [\<lparr>ID = ''abc'', Version = 1700000200, Content = ''again'', Language = ''go''\<rparr>]"
    by (simp add: DB_UpdateDocument_def insert_row_def rows_of_def key_def next_version_def
        example_db_def Let_def)
  have before: "DB_GetDocumentVersion example_db ''abc'' 1700000000
     = Inr \<lparr>ID = ''abc'', Version = 1700000000, Content = ''hello'', Language = ''go''\<rparr>"
    by (simp add: DB_GetDocumentVersion_def example_db_def)
  from versions_append_only [OF pk, of ?op] nd before
  have "DB_GetDocumentVersion (run_op ?op example_db) ''abc'' 1700000000
     = Inr \<lparr>ID = ''abc'', Version = 1700000000, Content = ''hello'', Language = ''go''\<rparr>"
    by blast
  with pk nd run show ?thesis by blast
qed

subsection \<open>Deleting one version\<close>

lemma run_op_delete_version:
  "run_op (DeleteVersion documentID version) table
     = filter (\<lambda>d. key d \<noteq> (documentID, version)) table"
proof (cases "find (\<lambda>d. ID d = documentID \<and> Version d = version) table")
  case None
  then have "\<forall>d \<in> set table. key d \<noteq> (documentID, version)"
    by (auto simp: find_None_iff key_def)
  then have "filter (\<lambda>d. key d \<noteq> (documentID, version)) table = table"
    by (simp add: filter_id_conv)
  with None show ?thesis by (simp add: DB_DeleteDocumentByVersion_def)
next
  case (Some d)
  then show ?thesis by (simp add: DB_DeleteDocumentByVersion_def)
qed

lemma find_filter_implied:
  "(\<And>x. P x \<Longrightarrow> Q x) \<Longrightarrow> find P (filter Q xs) = find P xs"
  by (induction xs) auto

lemma GetDocumentVersion_other_key:
  assumes "(i, v) \<noteq> (documentID, version)"
  shows "DB_GetDocumentVersion (filter (\<lambda>d. key d \<noteq> (documentID, version)) table) i v
     = DB_GetDocumentVersion table i v"
proof -
  have "find (\<lambda>d. ID d = i \<and> Version d = v) (filter (\<lambda>d. key d \<noteq> (documentID, version)) table)
      = find (\<lambda>d. ID d = i \<and> Version d = v) table"
    using assms by (intro find_filter_implied) (auto simp: key_def)
  then show ?thesis by (simp add: DB_GetDocumentVersion_def)
qed

lemma rows_of_other_document:
  "i \<noteq> documentID \<Longrightarrow>
     rows_of (filter (\<lambda>d. key d \<noteq> (documentID, version)) table) i = rows_of table i"
  by (induction table) (auto simp: rows_of_def key_def)

lemma length_delete_key:
  "distinct (map key table) \<Longrightarrow> k \<in> set (map key table) \<Longrightarrow>
     length (filter (\<lambda>d. key d \<noteq> k) table) + 1 = length table"
proof (induction table)
  case Nil
  then show ?case by simp
next
  case (Cons d ds)
  show ?case
  proof (cases "key d = k")
    case True
    from Cons.prems(1) have "key d \<notin> key ` set ds" by simp
    with True have "\<forall>x \<in> set ds. key x \<noteq> k" by (metis image_eqI)
    then have "filter (\<lambda>d. key d \<noteq> k) ds = ds" by (simp add: filter_id_conv)
    with True show ?thesis by simp
  next
    case False
    with Cons show ?thesis by auto
  qed
qed

lemma delete_version_removes_one:
  assumes "primary_key table" "DB_DeleteDocumentByVersion table documentID version = Inr table'"
  shows "length table' + 1 = length table"
proof -
  from assms(2) obtain d where "find (\<lambda>d. ID d = documentID \<and> Version d = version) table = Some d"
    and t: "table' = filter (\<lambda>d. key d \<noteq> (documentID, version)) table"
    by (auto simp: DB_DeleteDocumentByVersion_def split: if_splits)
  then have "(documentID, version) \<in> set (map key table)"
    by (force simp: find_Some_iff key_def)
  with assms(1) show ?thesis
    unfolding t primary_key_def by (rule length_delete_key)
qed

lemma delete_version_keeps_latest:
  assumes "primary_key table" "DB_GetDocument table documentID = Inr d" "Version d \<noteq> version"
  shows "DB_GetDocument (filter (\<lambda>d. key d \<noteq> (documentID, version)) table) documentID = Inr d"
proof -
  let ?t = "filter (\<lambda>d. key d \<noteq> (documentID, version)) table"
  from GetDocument_rows [OF assms(2)]
  have d: "d \<in> set table" "ID d = documentID"
    "\<forall>x \<in> set table. ID x = documentID \<longrightarrow> Version x \<le> Version d"
    by blast+
  have "primary_key ?t"
    using assms(1) by (rule primary_key_filter)
  moreover have "d \<in> set ?t"
    using d(1) assms(3) by (simp add: key_def)
  moreover have "\<forall>x \<in> set ?t. ID x = documentID \<longrightarrow> Version x \<le> Version d"
    using d(3) by simp
  ultimately show ?thesis using d(2) by (intro GetDocument_is_latest) auto
qed

lemma DeleteDocumentVersion_store:
  assumes "parseDocumentVersion r = (None, documentID, version)"
  shows "snd (DeleteDocumentVersion s r) = run_op (DeleteVersion documentID version) (db s)"
proof -
  from assms have "documentID \<noteq> []"
    by (auto simp: parseDocumentVersion_def Let_def split: if_splits option.splits)
  with assms show ?thesis
    by (simp add: DeleteDocumentVersion_def DB_GetVersionCount_def split: sum.splits)
qed

lemma DeleteDocument_v2_store:
  assumes "snd (parseDocumentVersion_v2 r) = version" "version \<noteq> 0" "version \<noteq> - 1"
    "authorized r PermissionDelete"
  shows "snd (DeleteDocument_v2 s r)
     = run_op (DeleteVersion (URLParam r ''documentID'') version) (db s)"
proof -
  obtain w where "parseDocumentVersion_v2 r = (w, version)"
    using assms(1) by (cases "parseDocumentVersion_v2 r") simp
  with assms(2-4) show ?thesis
    by (simp add: DeleteDocument_v2_def authorized_def slices_Contains_def
        DB_GetVersionCount_def split: sum.splits)
qed

text \<open>
  C7. Deleting the version \<open>version\<close> of \<open>documentID\<close> leaves exactly the rows
  whose key is not that pair: every other row, of this document or of any other, is read
  as before, and when the delete succeeds the table has exactly one row less. If the
  latest version of the document is not the one deleted, the latest version read
  afterwards is the same row; the latest version of every other document is untouched.
  The delete handler of a single version in \<^verbatim>\<open>gobin/routes.go\<close>, and the delete
  handler of the later revision for a version other than 0, change the table in exactly
  this way.
\<close>

theorem delete_version_frame:
  assumes "primary_key table"
  shows "(\<forall>d. d \<in> set (run_op (DeleteVersion documentID version) table) \<longleftrightarrow>
            d \<in> set table \<and> key d \<noteq> (documentID, version))
     \<and> (\<forall>i v. (i, v) \<noteq> (documentID, version) \<longrightarrow>
           DB_GetDocumentVersion (run_op (DeleteVersion documentID version) table) i v
             = DB_GetDocumentVersion table i v)
     \<and> (\<forall>table'. DB_DeleteDocumentByVersion table documentID version = Inr table' \<longrightarrow>
           table' = run_op (DeleteVersion documentID version) table
           \<and> length table' + 1 = length table)
     \<and> (\<forall>d. DB_GetDocument table documentID = Inr d \<and> Version d \<noteq> version \<longrightarrow>
           DB_GetDocument (run_op (DeleteVersion documentID version) table) documentID = Inr d)
     \<and> (\<forall>i. i \<noteq> documentID \<longrightarrow>
           DB_GetDocument (run_op (DeleteVersion documentID version) table) i
             = DB_GetDocument table i)
     \<and> (parseDocumentVersion r = (None, documentID, version) \<longrightarrow>
           snd (DeleteDocumentVersion s r) = run_op (DeleteVersion documentID version) (db s))
     \<and> (snd (parseDocumentVersion_v2 r) = version \<and> version \<noteq> 0 \<and> version \<noteq> - 1
          \<and> authorized r PermissionDelete \<and> URLParam r ''documentID'' = documentID \<longrightarrow>
           snd (DeleteDocument_v2 s r) = run_op (DeleteVersion documentID version) (db s))"
proof -
  let ?t = "run_op (DeleteVersion documentID version) table"
  note run = run_op_delete_version [of documentID version table]
  have rows: "\<forall>d. d \<in> set ?t \<longleftrightarrow> d \<in> set table \<and> key d \<noteq> (documentID, version)"
    by (simp add: run del: run_op.simps)
  have others: "\<forall>i v. (i, v) \<noteq> (documentID, version) \<longrightarrow>
           DB_GetDocumentVersion ?t i v = DB_GetDocumentVersion table i v"
    using GetDocumentVersion_other_key [of _ _ documentID version table] by (simp add: run del: run_op.simps)
  have one: "\<forall>table'. DB_DeleteDocumentByVersion table documentID version = Inr table' \<longrightarrow>
           table' = ?t \<and> length table' + 1 = length table"
    using delete_version_removes_one [OF assms, of documentID version] by simp
  have latest: "\<forall>d. DB_GetDocument table documentID = Inr d \<and> Version d \<noteq> version \<longrightarrow>
           DB_GetDocument ?t documentID = Inr d"
    using delete_version_keeps_latest [OF assms, of documentID _ version] by (simp add: run del: run_op.simps)
  have other_documents: "\<forall>i. i \<noteq> documentID \<longrightarrow> DB_GetDocument ?t i = DB_GetDocument table i"
    by (simp add: run DB_GetDocument_def rows_of_other_document del: run_op.simps)
  have handler: "parseDocumentVersion r = (None, documentID, version) \<longrightarrow>
           snd (DeleteDocumentVersion s r) = run_op (DeleteVersion documentID version) (db s)"
    using DeleteDocumentVersion_store by blast
  have handler_v2: "snd (parseDocumentVersion_v2 r) = version \<and> version \<noteq> 0 \<and> version \<noteq> - 1
          \<and> authorized r PermissionDelete \<and> URLParam r ''documentID'' = documentID \<longrightarrow>
           snd (DeleteDocument_v2 s r) = run_op (DeleteVersion documentID version) (db s)"
    using DeleteDocument_v2_store [of r version s] by blast
  from rows others one latest other_documents handler handler_v2 show ?thesis by blast
qed

text \<open>
  The first version of \<open>abc\<close> is deleted from the example table through the handler
  of \<^verbatim>\<open>gobin/routes.go\<close>: the two other rows stay, one version is left, and the latest
  version of \<open>abc\<close> is the one it was.
\<close>

theorem delete_version_frame_witness:
  "primary_key example_db
   \<and> parseDocumentVersion
        (example_request ''DELETE'' [(''documentID'', ''abc''), (''version'', ''1700000000'')] []
           no_claims)
      = (None, ''abc'', 1700000000)
   \<and> snd (DeleteDocumentVersion example_server
        (example_request ''DELETE'' [(''documentID'', ''abc''), (''version'', ''1700000000'')] []
           no_claims))
      = [\<lparr>ID = ''xyz'', Version = 1700000050, Content = ''other'', Language = ''text''\<rparr>,
         \<lparr>ID = ''abc'', Version = 1700000100, Content = ''world'', Language = ''go''\<rparr>]
   \<and> DB_GetDocument example_db ''abc''
      = Inr \<lparr>ID = ''abc'', Version = 1700000100, Content = ''world'', Language = ''go''\<rparr>
   \<and> DB_GetDocument (run_op (DeleteVersion ''abc'' 1700000000) example_db) ''abc''
      = Inr \<lparr>ID = ''abc'', Version = 1700000100, Content = ''world'', Language = ''go''\<rparr>"
proof -
  let ?r = "example_request ''DELETE'' [(''documentID'', ''abc''), (''version'', ''1700000000'')] []
           no_claims"
  have pk: "primary_key example_db"
    by (simp add: primary_key_def key_def example_db_def)
  have parse: "parseDocumentVersion ?r = (None, ''abc'', 1700000000)"
    by (simp add: parseDocumentVersion_def ParseInt_def URLParam_def is_digit_def
        digits_value_def example_request_def)
  have run: "run_op (DeleteVersion ''abc'' 1700000000) example_db
      = [\<lparr>ID = ''xyz'', Version = 1700000050, Content = ''other'', Language = ''text''\<rparr>,
         \<lparr>ID = ''abc'', Version = 1700000100, Content = ''world'', Language = ''go''\<rparr>]"
    by (simp add: DB_DeleteDocumentByVersion_def key_def example_db_def)
  have latest: "DB_GetDocument example_db ''abc''
      = Inr \<lparr>ID = ''abc'', Version = 1700000100, Content = ''world'', Language = ''go''\<rparr>"
    by (simp add: DB_GetDocument_def rows_of_def latest_def example_db_def)
  have dbs: "db example_server = example_db"
    by (simp add: example_server_def)
  note frame = delete_version_frame [OF pk, of "''abc''" 1700000000 ?r example_server]
  from frame parse dbs run
  have "snd (DeleteDocumentVersion example_server ?r)
      = [\<lparr>ID = ''xyz'', Version = 1700000050, Content = ''other'', Language = ''text''\<rparr>,
         \<lparr>ID = ''abc'', Version = 1700000100, Content = ''world'', Language = ''go''\<rparr>]"
    by simp
  moreover from frame latest
  have "DB_GetDocument (run_op (DeleteVersion ''abc'' 1700000000) example_db) ''abc''
      = Inr \<lparr>ID = ''abc'', Version = 1700000100, Content = ''world'', Language = ''go''\<rparr>"
    by simp
  ultimately show ?thesis using pk parse latest by simp
qed

subsection \<open>Create, then read the latest version\<close>

lemma rows_of_fresh:
  "ID d \<notin> ID ` set table \<Longrightarrow> rows_of (table @ [d]) (ID d) = [d]"
  by (induction table) (auto simp: rows_of_def)

lemma create_fresh:
  assumes "new \<notin> ID ` set table"
  shows "DB_CreateDocument table new t content language
     = Inr (\<lparr>ID = new, Version = t, Content = content, Language = language\<rparr>,
            table @ [\<lparr>ID = new, Version = t, Content = content, Language = language\<rparr>])"
proof -
  from assms have "(new, t) \<notin> key ` set table"
    by (auto simp: key_def)
  then show ?thesis
    by (simp add: DB_CreateDocument_def insert_row_def next_version_def key_def Let_def)
qed

lemma get_latest_after_create:
  assumes "new \<notin> ID ` set table"
  shows "DB_GetDocument (table @ [\<lparr>ID = new, Version = t, Content = content, Language = language\<rparr>]) new
     = Inr \<lparr>ID = new, Version = t, Content = content, Language = language\<rparr>"
proof -
  let ?d = "\<lparr>ID = new, Version = t, Content = content, Language = language\<rparr>"
  from assms have "ID ?d \<notin> ID ` set table" by simp
  from rows_of_fresh [OF this] show ?thesis
    by (simp add: DB_GetDocument_def latest_def)
qed

lemma readBody_content:
  "Body r = Some content \<Longrightarrow> content \<noteq> [] \<Longrightarrow> readBody r = (None, content)"
  by (simp add: readBody_def)

lemma PostDocument_stores:
  assumes "Body r = Some content" "content \<noteq> []" "\<not> snd (exceedsMaxDocumentSize s content)"
    "newID env \<notin> ID ` set (db s)"
  shows "snd (PostDocument env s r)
     = db s @ [\<lparr>ID = newID env, Version = clock env, Content = content,
                 Language = Header_Language r\<rparr>]"
proof -
  obtain w where "exceedsMaxDocumentSize s content = (w, False)"
    using assms(3) by (cases "exceedsMaxDocumentSize s content") simp
  then show ?thesis
    using readBody_content [OF assms(1,2)] assms(2) create_fresh [OF assms(4)]
    by (simp add: PostDocument_def Let_def split: sum.splits prod.splits)
qed

lemma PostDocument_v2_stores:
  assumes "Body r = Some content" "content \<noteq> []" "\<not> snd (exceedsMaxDocumentSize s content)"
    "newID env \<notin> ID ` set (db s)" "\<not> ContextDone r"
  shows "snd (PostDocument_v2 lx render env s r)
     = db s @ [\<lparr>ID = newID env, Version = clock env, Content = content,
                 Language = lexer_name lx (Header_Language r) content\<rparr>]"
proof -
  obtain w where "exceedsMaxDocumentSize s content = (w, False)"
    using assms(3) by (cases "exceedsMaxDocumentSize s content") simp
  then show ?thesis
    using readBody_content [OF assms(1,2)] assms(2,5) create_fresh [OF assms(4)]
    by (simp add: PostDocument_v2_def Let_def split: sum.splits prod.splits)
qed

lemma getDocument_latest:
  "URLParam r ''documentID'' \<noteq> [] \<Longrightarrow> DB_GetDocument (db s) (URLParam r ''documentID'') = Inr d \<Longrightarrow>
     getDocument s r = (None, Some d)"
  by (simp add: getDocument_def)

lemma getDocument_v2_latest:
  "URLParam r ''documentID'' \<noteq> [] \<Longrightarrow> URLParam r ''version'' = [] \<Longrightarrow>
     DB_GetDocument (db s) (URLParam r ''documentID'') = Inr d \<Longrightarrow>
     getDocument_v2 s r = (None, Some d)"
  by (simp add: getDocument_v2_def parseDocumentVersion_v2_def)

text \<open>
  What the creating handlers hand to the store, read back through the read helpers. In
  \<^verbatim>\<open>gobin/routes.go\<close> the language stored is the request's \<open>Language\<close> header; in the
  later revision it is the name of the lexer chosen for that header, detected from the
  content when the header is empty or \<open>auto\<close>.
\<close>

lemma PostDocument_then_getDocument:
  assumes "Body r = Some content" "content \<noteq> []" "\<not> snd (exceedsMaxDocumentSize s content)"
    "newID env \<notin> ID ` set (db s)" "URLParam r' ''documentID'' = newID env" "newID env \<noteq> []"
  shows "getDocument (s\<lparr>db := snd (PostDocument env s r)\<rparr>) r'
     = (None, Some \<lparr>ID = newID env, Version = clock env, Content = content,
                     Language = Header_Language r\<rparr>)"
  using assms(5,6) get_latest_after_create [OF assms(4)]
  by (intro getDocument_latest) (simp_all add: PostDocument_stores [OF assms(1-4)])

lemma PostDocument_v2_then_getDocument_v2:
  assumes "Body r = Some content" "content \<noteq> []" "\<not> snd (exceedsMaxDocumentSize s content)"
    "newID env \<notin> ID ` set (db s)" "\<not> ContextDone r"
    "URLParam r' ''documentID'' = newID env" "newID env \<noteq> []" "URLParam r' ''version'' = []"
  shows "getDocument_v2 (s\<lparr>db := snd (PostDocument_v2 lx render env s r)\<rparr>) r'
     = (None, Some \<lparr>ID = newID env, Version = clock env, Content = content,
                     Language = lexer_name lx (Header_Language r) content\<rparr>)"
  using assms(6-8) get_latest_after_create [OF assms(4)]
  by (intro getDocument_v2_latest) (simp_all add: PostDocument_v2_stores [OF assms(1-5)])

text \<open>
  C4. When the store creates a document under a fresh identifier, from any content and
  any language, the create succeeds, and reading the latest version of the returned
  document's identifier right afterwards returns a row whose content is the content
  given and whose language is the language given.
\<close>

theorem create_then_get_latest:
  assumes "new \<notin> ID ` set table"
  shows "\<exists>doc table'. DB_CreateDocument table new t content language = Inr (doc, table')
     \<and> (\<exists>d. DB_GetDocument table' (ID doc) = Inr d
            \<and> Content d = content \<and> Language d = language)"
  using create_fresh [OF assms, of t content language]
    get_latest_after_create [OF assms, of t content language]
  by simp

text \<open>
  A document \<open>new\<close> created in the example table with content \<open>hello\<close> and language
  \<open>go\<close> is read back with both.
\<close>

theorem create_then_get_latest_witness:
  "''new'' \<notin> ID ` set example_db
   \<and> DB_CreateDocument example_db ''new'' 1700000200 ''hello'' ''go''
     = Inr (\<lparr>ID = ''new'', Version = 1700000200, Content = ''hello'', Language = ''go''\<rparr>,
            example_db @ [\<lparr>ID = ''new'', Version = 1700000200, Content = ''hello'', Language = ''go''\<rparr>])
   \<and> (\<exists>d. DB_GetDocument
            (example_db @ [\<lparr>ID = ''new'', Version = 1700000200, Content = ''hello'', Language = ''go''\<rparr>])
            ''new'' = Inr d
        \<and> Content d = ''hello'' \<and> Language d = ''go'')"
proof -
  have fresh: "''new'' \<notin> ID ` set example_db"
    by (simp add: example_db_def)
  have run: "DB_CreateDocument example_db ''new'' 1700000200 ''hello'' ''go''
     = Inr (\<lparr>ID = ''new'', Version = 1700000200, Content = ''hello'', Language = ''go''\<rparr>,
            example_db @ [\<lparr>ID = ''new'', Version = 1700000200, Content = ''hello'', Language = ''go''\<rparr>])"
    by (simp add: DB_CreateDocument_def insert_row_def next_version_def key_def example_db_def
        Let_def)
  from create_then_get_latest [OF fresh, of 1700000200 "''hello''" "''go''"] fresh run
  show ?thesis by simp
qed

end
